theory Spec2Isabelle
  imports Main "HOL-Library.Word"
begin

section \<open>Pointers, faults and raw memory\<close>

text \<open>
  The bridge of \<^verbatim>\<open>Sources/CV8/wrappers.cpp\<close> hands the host opaque \<^verbatim>\<open>void*\<close> values.
  A pointer is either \<^verbatim>\<open>nullptr\<close> or an address. Where the C++ source dereferences a
  pointer or an engine handle without a check, the model has a branch that ends in a
  fault instead of a result: the behaviour of the source is undefined there.
\<close>

type_synonym byte = "8 word"

datatype ptr = nullptr | Addr nat

datatype fault =
    InvalidPointer  \<comment> \<open>a null or dangling pointer is dereferenced\<close>
  | EmptyHandle     \<comment> \<open>\<^verbatim>\<open>->\<close> on an empty \<^verbatim>\<open>Local<T>\<close>\<close>
  | OutOfBounds     \<comment> \<open>\<^verbatim>\<open>memcpy\<close> or \<^verbatim>\<open>memset\<close> leaves the block it was given\<close>

section \<open>ArrayBufferAllocator\<close>

text \<open>
  The C heap is a partial map from the base address of a block to its bytes. The system
  allocator \<^verbatim>\<open>malloc\<close> is not part of the repository: it is a parameter that, given the
  heap and a size, answers with a pointer and the heap it leaves behind.
\<close>

type_synonym heap = "nat \<rightharpoonup> byte list"

type_synonym malloc_fn = "heap \<Rightarrow> nat \<Rightarrow> ptr \<times> heap"

definition memset :: "heap \<Rightarrow> ptr \<Rightarrow> byte \<Rightarrow> nat \<Rightarrow> fault + (ptr \<times> heap)" where
  "memset h p c n =
     (case p of
        nullptr \<Rightarrow> Inl InvalidPointer
      | Addr a \<Rightarrow>
          (case h a of
             None \<Rightarrow> Inl InvalidPointer
           | Some blk \<Rightarrow>
               if n \<le> length blk then Inr (p, h(a \<mapsto> replicate n c @ drop n blk))
               else Inl OutOfBounds))"

definition AllocateUninitialized :: "malloc_fn \<Rightarrow> heap \<Rightarrow> nat \<Rightarrow> ptr \<times> heap" where
  "AllocateUninitialized malloc h len = malloc h len"

definition Allocate :: "malloc_fn \<Rightarrow> heap \<Rightarrow> nat \<Rightarrow> fault + (ptr \<times> heap)" where
  "Allocate malloc h len =
     (let (data, h1) = AllocateUninitialized malloc h len
      in if data = nullptr then Inr (data, h1) else memset h1 data 0 len)"

text \<open>A system allocator used for concrete runs: it refuses requests above four bytes
  and otherwise hands out a block of garbage at address 7.\<close>

definition demo_malloc :: malloc_fn where
  "demo_malloc h len = (if 4 < len then (nullptr, h) else (Addr 7, h(7 \<mapsto> replicate len 170)))"

text \<open>The contract of \<^verbatim>\<open>malloc\<close> at one call: the answer is \<^verbatim>\<open>NULL\<close>, or the address of
  a block of the heap that holds at least the requested number of bytes.\<close>

definition malloc_contract :: "malloc_fn \<Rightarrow> heap \<Rightarrow> nat \<Rightarrow> bool" where
  "malloc_contract malloc h len =
     (case malloc h len of
        (nullptr, h1) \<Rightarrow> True
      | (Addr a, h1) \<Rightarrow> (case h1 a of None \<Rightarrow> False | Some blk \<Rightarrow> len \<le> length blk))"

section \<open>The engine and the state of the bridge\<close>

text \<open>
  The JavaScript engine is an external library. The bridge sees it through the calls below,
  so the engine is a record of functions over an engine state \<open>'e\<close> and a type \<open>'r\<close> of
  engine-native objects. A \<^verbatim>\<open>Local<T>\<close> is an optional reference: \<open>None\<close> is the empty
  handle. A call that may run script code returns the engine state it leaves behind.
  Nothing is assumed about what the functions answer.
\<close>

type_synonym isolate = nat

record ('e, 'r) engine =
  ObjectTemplate_New :: "'e \<Rightarrow> 'r option \<times> 'e"
  ObjectTemplate_Set :: "'e \<Rightarrow> 'r \<Rightarrow> 'r option \<Rightarrow> 'r option \<Rightarrow> 'e"
  FunctionTemplate_New :: "'e \<Rightarrow> 'r \<Rightarrow> 'r option \<times> 'e"
  Integer_New :: "'e \<Rightarrow> 32 word \<Rightarrow> 'r \<times> 'e"
  Context_New :: "'e \<Rightarrow> 'r option \<Rightarrow> 'r option \<Rightarrow> 'r option \<times> 'e"
  Context_Global :: "'e \<Rightarrow> 'r \<Rightarrow> 'r option \<times> 'e"
  Context_DetachGlobal :: "'e \<Rightarrow> 'r \<Rightarrow> 'e"
  String_NewFromUtf8 :: "'e \<Rightarrow> string \<Rightarrow> 'r option \<times> 'e"
  Script_Compile :: "'e \<Rightarrow> 'r option \<Rightarrow> 'r option \<times> 'e"
  Script_Run :: "'e \<Rightarrow> 'r \<Rightarrow> 'r \<Rightarrow> 'r option \<times> 'e"
  TryCatch_Exception :: "'e \<Rightarrow> 'r option"
  Value_ToInteger :: "'e \<Rightarrow> 'r \<Rightarrow> 'r option \<times> 'e"
  Value_IntegerValue :: "'e \<Rightarrow> 'r \<Rightarrow> 64 word"
  Value_Int32Value :: "'e \<Rightarrow> 'r \<Rightarrow> 32 word \<times> 'e"
  Value_ToObject :: "'e \<Rightarrow> 'r \<Rightarrow> 'r option \<times> 'e"
  Object_GetRealNamedProperty :: "'e \<Rightarrow> 'r \<Rightarrow> 'r option \<Rightarrow> 'r option \<times> 'e"
  Utf8Value :: "'e \<Rightarrow> 'r option \<Rightarrow> byte list option \<times> 'e"
  Value_IsNull :: "'e \<Rightarrow> 'r \<Rightarrow> bool"
  Value_IsUndefined :: "'e \<Rightarrow> 'r \<Rightarrow> bool"
  Value_IsBoolean :: "'e \<Rightarrow> 'r \<Rightarrow> bool"
  Value_IsNumber :: "'e \<Rightarrow> 'r \<Rightarrow> bool"
  Value_IsString :: "'e \<Rightarrow> 'r \<Rightarrow> bool"
  Value_IsObject :: "'e \<Rightarrow> 'r \<Rightarrow> bool"

text \<open>
  \<open>Utf8Value\<close> is the constructor of \<^verbatim>\<open>String::Utf8Value\<close>: \<open>None\<close> when the value has no
  string conversion (\<^verbatim>\<open>*utf8\<close> is \<^verbatim>\<open>NULL\<close> and \<^verbatim>\<open>length()\<close> is 0), otherwise the bytes of
  the UTF-8 encoding, which the engine stores followed by a terminating NUL.

  What the bridge does is recorded as a sequence of events: a guard object of the engine
  is constructed or destroyed, or a call into the engine is made.
\<close>

datatype guard =
    Locker isolate
  | TryCatch isolate
  | IsolateScope isolate
  | HandleScope isolate
  | ContextScope

datatype event = Enter guard | Leave guard | Native string

text \<open>
  The state: the engine, the \<^verbatim>\<open>Global<T>\<close> cells allocated with \<^verbatim>\<open>new\<close> (a cell holds a
  handle that may be empty), the next address \<^verbatim>\<open>new\<close> hands out, the host's memory for
  \<^verbatim>\<open>void*\<close> out-parameters and for byte buffers, and the events so far.
\<close>

record ('e, 'r) state =
  eng :: 'e
  globals :: "nat \<rightharpoonup> 'r option"
  fresh :: nat
  slots :: "nat \<Rightarrow> ptr"
  mem :: heap
  trace :: "event list"

type_synonym ('a, 'e, 'r) outcome = "fault + ('a \<times> ('e, 'r) state)"

definition logs :: "event list \<Rightarrow> ('e, 'r) state \<Rightarrow> ('e, 'r) state" where
  "logs evs st = st\<lparr>trace := trace st @ evs\<rparr>"

text \<open>Constructing guard objects in the order written, and leaving the block: C++ destroys
  the automatic objects of a block in the reverse order of their construction.\<close>

definition enter :: "guard list \<Rightarrow> ('e, 'r) state \<Rightarrow> ('e, 'r) state" where
  "enter gs st = logs (map Enter gs) st"

definition unwind :: "guard list \<Rightarrow> ('e, 'r) state \<Rightarrow> ('e, 'r) state" where
  "unwind gs st = logs (map Leave (rev gs)) st"

text \<open>\<^verbatim>\<open>new Global<T>(isolate, local)\<close>: a fresh cell; the engine is asked for a global
  reference only when the handle is not empty.\<close>

definition new_Global :: "'r option \<Rightarrow> ('e, 'r) state \<Rightarrow> ptr \<times> ('e, 'r) state" where
  "new_Global l st =
     (Addr (fresh st),
      logs (if l = None then [] else [Native ''Global::New''])
        (st\<lparr>globals := (globals st)(fresh st \<mapsto> l), fresh := Suc (fresh st)\<rparr>))"

text \<open>\<^verbatim>\<open>global->Get(isolate)\<close> through a \<^verbatim>\<open>void*\<close> that was cast to \<^verbatim>\<open>Global<T>*\<close>.\<close>

definition Global_Get :: "ptr \<Rightarrow> ('e, 'r) state \<Rightarrow> ('r option, 'e, 'r) outcome" where
  "Global_Get p st =
     (case p of
        nullptr \<Rightarrow> Inl InvalidPointer
      | Addr a \<Rightarrow>
          (case globals st a of
             None \<Rightarrow> Inl InvalidPointer
           | Some l \<Rightarrow> Inr (l, logs (if l = None then [] else [Native ''Global::Get'']) st)))"

text \<open>\<^verbatim>\<open>delete\<close> of a \<^verbatim>\<open>Global<T>*\<close>: nothing for \<^verbatim>\<open>nullptr\<close>; otherwise the destructor
  resets the handle (a call into the engine unless the handle is empty) and the cell is
  freed.\<close>

definition delete_Global :: "ptr \<Rightarrow> ('e, 'r) state \<Rightarrow> (unit, 'e, 'r) outcome" where
  "delete_Global p st =
     (case p of
        nullptr \<Rightarrow> Inr ((), st)
      | Addr a \<Rightarrow>
          (case globals st a of
             None \<Rightarrow> Inl InvalidPointer
           | Some l \<Rightarrow>
               Inr ((), logs (if l = None then [] else [Native ''Global::Reset''])
                          (st\<lparr>globals := (globals st)(a := None)\<rparr>))))"

text \<open>\<^verbatim>\<open>memcpy(dst, src, n)\<close>: \<open>src\<close> is the readable block behind the source pointer
  (\<open>None\<close> for \<^verbatim>\<open>NULL\<close>), \<open>dst\<close> the base address of a block of the host's memory.\<close>

definition memcpy :: "heap \<Rightarrow> ptr \<Rightarrow> byte list option \<Rightarrow> nat \<Rightarrow> fault + heap" where
  "memcpy h dst src n =
     (case src of
        None \<Rightarrow> Inl InvalidPointer
      | Some s \<Rightarrow>
          (case dst of
             nullptr \<Rightarrow> Inl InvalidPointer
           | Addr a \<Rightarrow>
               (case h a of
                  None \<Rightarrow> Inl InvalidPointer
                | Some blk \<Rightarrow>
                    if n \<le> length s \<and> n \<le> length blk
                    then Inr (h(a \<mapsto> take n s @ drop n blk))
                    else Inl OutOfBounds)))"

section \<open>The bridge functions\<close>

text \<open>
  Each function of \<^verbatim>\<open>wrappers.cpp\<close> takes the state and returns its result with the new
  state, or a fault. The isolate is passed as the source passes it. The members of the
  class \<^verbatim>\<open>GlobalValue\<close> are constructed in the order of their declaration.
\<close>

definition GlobalValue :: "isolate \<Rightarrow> guard list" where
  "GlobalValue isolate = [Locker isolate, IsolateScope isolate, HandleScope isolate]"

subsection \<open>Templates and contexts\<close>

definition createTemplate ::
  "('e, 'r) engine \<Rightarrow> isolate \<Rightarrow> ('e, 'r) state \<Rightarrow> (ptr, 'e, 'r) outcome" where
  "createTemplate E isolate st =
     (let gs = [Locker isolate, IsolateScope isolate, HandleScope isolate];
          st1 = enter gs st
      in case ObjectTemplate_New E (eng st1) of
           (globalObject, e1) \<Rightarrow>
             (case new_Global globalObject
                     (logs [Native ''ObjectTemplate::New''] (st1\<lparr>eng := e1\<rparr>)) of
                (p, st2) \<Rightarrow> Inr (p, unwind gs st2)))"

definition disposeTemplate :: "ptr \<Rightarrow> ('e, 'r) state \<Rightarrow> (unit, 'e, 'r) outcome" where
  "disposeTemplate p st = delete_Global p st"

definition createContext ::
  "('e, 'r) engine \<Rightarrow> isolate \<Rightarrow> ptr \<Rightarrow> ('e, 'r) state \<Rightarrow> (ptr, 'e, 'r) outcome" where
  "createContext E isolate templatePtr st =
     (let gs = [Locker isolate, IsolateScope isolate, HandleScope isolate];
          st1 = enter gs st
      in case Global_Get templatePtr st1 of
           Inl f \<Rightarrow> Inl f
         | Inr (globalTemplate, st2) \<Rightarrow>
             (case Context_New E (eng st2) globalTemplate None of
                (ctx, e1) \<Rightarrow>
                  (case new_Global ctx (logs [Native ''Context::New''] (st2\<lparr>eng := e1\<rparr>)) of
                     (p, st3) \<Rightarrow> Inr (p, unwind gs st3))))"

definition disposeContext :: "ptr \<Rightarrow> ('e, 'r) state \<Rightarrow> (unit, 'e, 'r) outcome" where
  "disposeContext p st = delete_Global p st"

subsection \<open>evaluate\<close>

text \<open>Lines 130 to 132: the source text becomes an engine string, is compiled, and the
  script is run through \<^verbatim>\<open>script->Run(context)\<close>. The handle that \<^verbatim>\<open>Script::Compile\<close>
  returns is not tested before it is dereferenced.\<close>

definition run_source ::
  "('e, 'r) engine \<Rightarrow> 'e \<Rightarrow> 'r \<Rightarrow> string \<Rightarrow> fault + ('r option \<times> 'e)" where
  "run_source E e ctx scriptPtr =
     (case String_NewFromUtf8 E e scriptPtr of
        (source, e1) \<Rightarrow>
          (case Script_Compile E e1 source of
             (script, e2) \<Rightarrow>
               (case script of
                  None \<Rightarrow> Inl EmptyHandle
                | Some s \<Rightarrow> Inr (Script_Run E e2 s ctx))))"

definition evaluate ::
  "('e, 'r) engine \<Rightarrow> isolate \<Rightarrow> ptr \<Rightarrow> string \<Rightarrow> ptr \<Rightarrow> ('e, 'r) state \<Rightarrow> (ptr, 'e, 'r) outcome" where
  "evaluate E isolate contextPtr scriptPtr exception st =
     (let gs = [Locker isolate, TryCatch isolate, IsolateScope isolate, HandleScope isolate];
          st1 = enter gs st
      in case Global_Get contextPtr st1 of
           Inl f \<Rightarrow> Inl f
         | Inr (context_local, st2) \<Rightarrow>
             (case context_local of
                None \<Rightarrow> Inl EmptyHandle
              | Some ctx \<Rightarrow>
                  (let st3 = enter [ContextScope] st2
                   in case run_source E (eng st3) ctx scriptPtr of
                        Inl f \<Rightarrow> Inl f
                      | Inr (result, e3) \<Rightarrow>
                          (let st4 = logs [Native ''String::NewFromUtf8'', Native ''Script::Compile'',
                                           Native ''Script::Run''] (st3\<lparr>eng := e3\<rparr>)
                           in case result of
                                None \<Rightarrow>
                                  (case exception of
                                     nullptr \<Rightarrow> Inr (nullptr, unwind (gs @ [ContextScope]) st4)
                                   | Addr x \<Rightarrow>
                                       (case new_Global (TryCatch_Exception E (eng st4))
                                               (logs [Native ''TryCatch::Exception''] st4) of
                                          (p, st5) \<Rightarrow>
                                            Inr (nullptr,
                                                 unwind (gs @ [ContextScope])
                                                   (st5\<lparr>slots := (slots st5)(x := p)\<rparr>))))
                              | Some v \<Rightarrow>
                                  (case new_Global (Some v) st4 of
                                     (p, st5) \<Rightarrow> Inr (p, unwind (gs @ [ContextScope]) st5))))))"

definition disposeValue :: "ptr \<Rightarrow> ('e, 'r) state \<Rightarrow> (unit, 'e, 'r) outcome" where
  "disposeValue pointer st = delete_Global pointer st"

subsection \<open>Value introspection\<close>

definition valueToInt ::
  "('e, 'r) engine \<Rightarrow> isolate \<Rightarrow> ptr \<Rightarrow> ('e, 'r) state \<Rightarrow> (64 word, 'e, 'r) outcome" where
  "valueToInt E isolate val st =
     (let st1 = enter (GlobalValue isolate) st
      in case Global_Get val st1 of
           Inl f \<Rightarrow> Inl f
         | Inr (scoped, st2) \<Rightarrow>
             (case scoped of
                None \<Rightarrow> Inl EmptyHandle
              | Some v \<Rightarrow>
                  (case Value_ToInteger E (eng st2) v of
                     (integer, e1) \<Rightarrow>
                       (case integer of
                          None \<Rightarrow> Inl EmptyHandle
                        | Some n \<Rightarrow>
                            Inr (Value_IntegerValue E e1 n,
                                 unwind (GlobalValue isolate)
                                   (logs [Native ''Value::ToInteger'', Native ''Value::IntegerValue'']
                                      (st2\<lparr>eng := e1\<rparr>)))))))"

definition getUtf8StringLength ::
  "('e, 'r) engine \<Rightarrow> isolate \<Rightarrow> ptr \<Rightarrow> ('e, 'r) state \<Rightarrow> (int, 'e, 'r) outcome" where
  "getUtf8StringLength E isolate val st =
     (let st1 = enter (GlobalValue isolate) st
      in case Global_Get val st1 of
           Inl f \<Rightarrow> Inl f
         | Inr (scoped, st2) \<Rightarrow>
             (case Utf8Value E (eng st2) scoped of
                (utf8, e1) \<Rightarrow>
                  Inr (case utf8 of None \<Rightarrow> 0 | Some bs \<Rightarrow> int (length bs),
                       unwind (GlobalValue isolate)
                         (logs [Native ''String::Utf8Value''] (st2\<lparr>eng := e1\<rparr>)))))"

text \<open>\<^verbatim>\<open>memcpy(buffer, *utf8, count)\<close>: the \<^verbatim>\<open>int\<close> count is converted to \<^verbatim>\<open>size_t\<close>, so
  a negative count becomes a size of at least \<open>2 ^ 63\<close>. The source block is the encoding
  with its terminating NUL.\<close>

definition copyUtf8String ::
  "('e, 'r) engine \<Rightarrow> isolate \<Rightarrow> ptr \<Rightarrow> ptr \<Rightarrow> int \<Rightarrow> ('e, 'r) state \<Rightarrow> (unit, 'e, 'r) outcome" where
  "copyUtf8String E isolate val buffer count st =
     (let st1 = enter (GlobalValue isolate) st
      in case Global_Get val st1 of
           Inl f \<Rightarrow> Inl f
         | Inr (scoped, st2) \<Rightarrow>
             (case Utf8Value E (eng st2) scoped of
                (utf8, e1) \<Rightarrow>
                  (case memcpy (mem st2) buffer (map_option (\<lambda>bs. bs @ [0]) utf8)
                          (nat (count mod 2 ^ 64)) of
                     Inl f \<Rightarrow> Inl f
                   | Inr m \<Rightarrow>
                       Inr ((), unwind (GlobalValue isolate)
                                  (logs [Native ''String::Utf8Value'']
                                     (st2\<lparr>eng := e1, mem := m\<rparr>))))))"

text \<open>The six type checks have one shape: \<^verbatim>\<open>GlobalValue scoped(isolate, value); return
  scoped->IsX();\<close>\<close>

definition type_check ::
  "('e \<Rightarrow> 'r \<Rightarrow> bool) \<Rightarrow> string \<Rightarrow> isolate \<Rightarrow> ptr \<Rightarrow> ('e, 'r) state \<Rightarrow> (bool, 'e, 'r) outcome" where
  "type_check IsX name isolate val st =
     (let st1 = enter (GlobalValue isolate) st
      in case Global_Get val st1 of
           Inl f \<Rightarrow> Inl f
         | Inr (scoped, st2) \<Rightarrow>
             (case scoped of
                None \<Rightarrow> Inl EmptyHandle
              | Some v \<Rightarrow>
                  Inr (IsX (eng st2) v, unwind (GlobalValue isolate) (logs [Native name] st2))))"

definition isNull ::
  "('e, 'r) engine \<Rightarrow> isolate \<Rightarrow> ptr \<Rightarrow> ('e, 'r) state \<Rightarrow> (bool, 'e, 'r) outcome" where
  "isNull E = type_check (Value_IsNull E) ''Value::IsNull''"

definition isUndefined ::
  "('e, 'r) engine \<Rightarrow> isolate \<Rightarrow> ptr \<Rightarrow> ('e, 'r) state \<Rightarrow> (bool, 'e, 'r) outcome" where
  "isUndefined E = type_check (Value_IsUndefined E) ''Value::IsUndefined''"

definition isBoolean ::
  "('e, 'r) engine \<Rightarrow> isolate \<Rightarrow> ptr \<Rightarrow> ('e, 'r) state \<Rightarrow> (bool, 'e, 'r) outcome" where
  "isBoolean E = type_check (Value_IsBoolean E) ''Value::IsBoolean''"

definition isNumber ::
  "('e, 'r) engine \<Rightarrow> isolate \<Rightarrow> ptr \<Rightarrow> ('e, 'r) state \<Rightarrow> (bool, 'e, 'r) outcome" where
  "isNumber E = type_check (Value_IsNumber E) ''Value::IsNumber''"

definition isString ::
  "('e, 'r) engine \<Rightarrow> isolate \<Rightarrow> ptr \<Rightarrow> ('e, 'r) state \<Rightarrow> (bool, 'e, 'r) outcome" where
  "isString E = type_check (Value_IsString E) ''Value::IsString''"

definition isObject ::
  "('e, 'r) engine \<Rightarrow> isolate \<Rightarrow> ptr \<Rightarrow> ('e, 'r) state \<Rightarrow> (bool, 'e, 'r) outcome" where
  "isObject E = type_check (Value_IsObject E) ''Value::IsObject''"

subsection \<open>Functions\<close>

text \<open>
  \<^verbatim>\<open>FunctionCallbackInfo\<close> is what the engine passes to \<^verbatim>\<open>callback\<close> when script code calls
  a registered function. The dispatch function \<^verbatim>\<open>swiftCallback\<close> is supplied by the host:
  it is a parameter that receives the isolate, the identifier, the array of handles, the
  argument count and the address of the return value, and may change the state.
\<close>

record 'r FunctionCallbackInfo =
  args_Data :: 'r
  args_GetIsolate :: isolate
  args_at :: "'r list"
  args_GetReturnValue :: nat

type_synonym ('e, 'r) dispatch =
  "isolate \<Rightarrow> 32 word \<Rightarrow> ptr list \<Rightarrow> int \<Rightarrow> nat \<Rightarrow> ('e, 'r) state \<Rightarrow> ('e, 'r) state"

text \<open>The loop of lines 206 to 208, from index 0 upwards.\<close>

fun promote :: "'r list \<Rightarrow> ('e, 'r) state \<Rightarrow> ptr list \<times> ('e, 'r) state" where
  "promote [] st = ([], st)"
| "promote (a # as) st =
     (case new_Global (Some a) st of
        (p, st1) \<Rightarrow> (case promote as st1 of (ps, st2) \<Rightarrow> (p # ps, st2)))"

definition callback ::
  "('e, 'r) engine \<Rightarrow> ('e, 'r) dispatch \<Rightarrow> 'r FunctionCallbackInfo \<Rightarrow> ('e, 'r) state \<Rightarrow> ('e, 'r) state" where
  "callback E swiftCallback args st =
     (case Value_Int32Value E (eng st) (args_Data args) of
        (id', e1) \<Rightarrow>
          (let isolate = args_GetIsolate args;
               st1 = enter [HandleScope isolate]
                       (logs [Native ''Value::Int32Value''] (st\<lparr>eng := e1\<rparr>))
           in case promote (args_at args) st1 of
                (vals, st2) \<Rightarrow>
                  unwind [HandleScope isolate]
                    (swiftCallback isolate id' vals (int (length (args_at args)))
                       (args_GetReturnValue args) st2)))"

text \<open>\<^verbatim>\<open>global->Reset(isolate, other)\<close>: the cell keeps its address and takes the new
  handle.\<close>

definition Global_Reset :: "ptr \<Rightarrow> 'r option \<Rightarrow> ('e, 'r) state \<Rightarrow> (unit, 'e, 'r) outcome" where
  "Global_Reset p l st =
     (case p of
        nullptr \<Rightarrow> Inl InvalidPointer
      | Addr a \<Rightarrow>
          (case globals st a of
             None \<Rightarrow> Inl InvalidPointer
           | Some old \<Rightarrow>
               Inr ((), logs ((if old = None then [] else [Native ''Global::Reset'']) @
                              (if l = None then [] else [Native ''Global::New'']))
                          (st\<lparr>globals := (globals st)(a \<mapsto> l)\<rparr>))))"

text \<open>Lines 222 to 232 as calls of the engine: the template, the old context, the name and
  the identifier go in; the new context handle and the engine state come out. The two
  arguments of \<^verbatim>\<open>Set\<close> are evaluated left to right here; C++ leaves their order open.\<close>

definition rebind ::
  "('e, 'r) engine \<Rightarrow> 'e \<Rightarrow> 'r \<Rightarrow> 'r \<Rightarrow> string \<Rightarrow> 32 word \<Rightarrow> 'r option \<times> 'e" where
  "rebind E e globalTemplate ctx namePtr id' =
     (case Integer_New E e id' of
        (data, e1) \<Rightarrow>
          (case String_NewFromUtf8 E e1 namePtr of
             (name, e2) \<Rightarrow>
               (case FunctionTemplate_New E e2 data of
                  (function, e3) \<Rightarrow>
                    (let e4 = ObjectTemplate_Set E e3 globalTemplate name function
                     in case Context_Global E e4 ctx of
                          (globalObject, e5) \<Rightarrow>
                            Context_New E (Context_DetachGlobal E e5 ctx)
                              (Some globalTemplate) globalObject))))"

definition createFunction ::
  "('e, 'r) engine \<Rightarrow> isolate \<Rightarrow> ptr \<Rightarrow> ptr \<Rightarrow> string \<Rightarrow> 32 word \<Rightarrow> ('e, 'r) state \<Rightarrow>
     (unit, 'e, 'r) outcome" where
  "createFunction E isolate contextPtr templatePtr namePtr id' st =
     (let gs = [Locker isolate, IsolateScope isolate, HandleScope isolate];
          st1 = logs [Native ''Integer::New''] (enter gs st)
      in case Global_Get templatePtr st1 of
           Inl f \<Rightarrow> Inl f
         | Inr (template_local, st2) \<Rightarrow>
             (case template_local of
                None \<Rightarrow> Inl EmptyHandle
              | Some globalTemplate \<Rightarrow>
                  (let st3 = logs [Native ''String::NewFromUtf8'', Native ''FunctionTemplate::New'',
                                   Native ''ObjectTemplate::Set''] st2
                   in case Global_Get contextPtr st3 of
                        Inl f \<Rightarrow> Inl f
                      | Inr (context_local, st4) \<Rightarrow>
                          (case context_local of
                             None \<Rightarrow> Inl EmptyHandle
                           | Some ctx \<Rightarrow>
                               (case rebind E (eng st4) globalTemplate ctx namePtr id' of
                                  (newContext, e') \<Rightarrow>
                                    (case Global_Reset contextPtr newContext
                                            (logs [Native ''Context::Global'',
                                                   Native ''Context::DetachGlobal'',
                                                   Native ''Context::New''] (st4\<lparr>eng := e'\<rparr>)) of
                                       Inl f \<Rightarrow> Inl f
                                     | Inr (u, st5) \<Rightarrow> Inr ((), unwind gs st5)))))))"

subsection \<open>Properties\<close>

text \<open>Lines 281 to 283: the referent is coerced to an object, the key becomes an engine
  string, and the property is looked up through \<^verbatim>\<open>object->GetRealNamedProperty(key)\<close>.
  The handle that \<^verbatim>\<open>ToObject\<close> returns is not tested before it is dereferenced.\<close>

definition lookup_named ::
  "('e, 'r) engine \<Rightarrow> 'e \<Rightarrow> 'r \<Rightarrow> string \<Rightarrow> fault + ('r option \<times> 'e)" where
  "lookup_named E e v keyPtr =
     (case Value_ToObject E e v of
        (object, e1) \<Rightarrow>
          (case String_NewFromUtf8 E e1 keyPtr of
             (key, e2) \<Rightarrow>
               (case object of
                  None \<Rightarrow> Inl EmptyHandle
                | Some ob \<Rightarrow> Inr (Object_GetRealNamedProperty E e2 ob key))))"

definition getProperty ::
  "('e, 'r) engine \<Rightarrow> isolate \<Rightarrow> ptr \<Rightarrow> string \<Rightarrow> ptr \<Rightarrow> ('e, 'r) state \<Rightarrow> (ptr, 'e, 'r) outcome" where
  "getProperty E isolate valuePtr keyPtr exception st =
     (let gs = [Locker isolate, TryCatch isolate, IsolateScope isolate, HandleScope isolate];
          st1 = enter gs st
      in case Global_Get valuePtr st1 of
           Inl f \<Rightarrow> Inl f
         | Inr (value_local, st2) \<Rightarrow>
             (case value_local of
                None \<Rightarrow> Inl EmptyHandle
              | Some v \<Rightarrow>
                  (case lookup_named E (eng st2) v keyPtr of
                     Inl f \<Rightarrow> Inl f
                   | Inr (result, e3) \<Rightarrow>
                       (let st3 = logs [Native ''Value::ToObject'', Native ''String::NewFromUtf8'',
                                        Native ''Object::GetRealNamedProperty''] (st2\<lparr>eng := e3\<rparr>)
                        in case result of
                             None \<Rightarrow>
                               (case exception of
                                  nullptr \<Rightarrow> Inr (nullptr, unwind gs st3)
                                | Addr x \<Rightarrow>
                                    (case new_Global (TryCatch_Exception E (eng st3))
                                            (logs [Native ''TryCatch::Exception''] st3) of
                                       (p, st4) \<Rightarrow>
                                         Inr (nullptr,
                                              unwind gs (st4\<lparr>slots := (slots st4)(x := p)\<rparr>))))
                           | Some r \<Rightarrow>
                               (case new_Global (Some r) st3 of
                                  (p, st4) \<Rightarrow> Inr (p, unwind gs st4))))))"

subsection \<open>Observations\<close>

text \<open>What a \<^verbatim>\<open>void*\<close> handle refers to in a state: \<open>None\<close> for \<^verbatim>\<open>nullptr\<close> and for an address
  that holds no cell, otherwise the handle stored in the cell.\<close>

definition cell_of :: "('e, 'r) state \<Rightarrow> ptr \<Rightarrow> 'r option option" where
  "cell_of st p = (case p of nullptr \<Rightarrow> None | Addr a \<Rightarrow> globals st a)"

text \<open>The result and the final state of a call that returned.\<close>

definition result_of :: "('a, 'e, 'r) outcome \<Rightarrow> fault + 'a" where
  "result_of r = map_sum id fst r"

definition state_of :: "('a, 'e, 'r) outcome \<Rightarrow> ('e, 'r) state" where
  "state_of r = snd (projr r)"

section \<open>The guard discipline on a sequence of events\<close>

text \<open>
  \<open>holds i held\<close>: among the guards held, in the order they were acquired, the lock, the
  isolate scope and the handle scope of isolate \<open>i\<close> occur once each and in this order.
  \<open>scan\<close> runs over the events with the stack of guards held (the most recent first): a
  guard may be released only when it is the most recent one still held, and a call into
  the engine needs \<open>holds\<close>. A sequence is \<open>guarded\<close> when the scan succeeds from the empty
  stack and ends with the empty stack.
\<close>

definition holds :: "isolate \<Rightarrow> guard list \<Rightarrow> bool" where
  "holds i held =
     (filter (\<lambda>g. g = Locker i \<or> g = IsolateScope i \<or> g = HandleScope i) (rev held)
        = [Locker i, IsolateScope i, HandleScope i])"

fun scan :: "isolate \<Rightarrow> guard list \<Rightarrow> event list \<Rightarrow> guard list option" where
  "scan i held [] = Some held"
| "scan i held (Enter g # evs) = scan i (g # held) evs"
| "scan i held (Leave g # evs) =
     (case held of
        [] \<Rightarrow> None
      | g0 # below \<Rightarrow> if g0 = g then scan i below evs else None)"
| "scan i held (Native name # evs) = (if holds i held then scan i held evs else None)"

definition guarded :: "isolate \<Rightarrow> event list \<Rightarrow> bool" where
  "guarded i evs = (scan i [] evs = Some [])"

text \<open>The events a call added to the state, and the discipline for one call.\<close>

definition new_events :: "('e, 'r) state \<Rightarrow> ('e, 'r) state \<Rightarrow> event list" where
  "new_events st st' = drop (length (trace st)) (trace st')"

definition disciplined :: "isolate \<Rightarrow> ('e, 'r) state \<Rightarrow> ('e, 'r) state \<Rightarrow> bool" where
  "disciplined i st st' =
     (take (length (trace st)) (trace st') = trace st \<and> guarded i (new_events st st'))"

text \<open>A call that acquires nothing: all it adds is the reset of a global handle.\<close>

definition unguarded :: "('e, 'r) state \<Rightarrow> ('e, 'r) state \<Rightarrow> bool" where
  "unguarded st st' =
     (take (length (trace st)) (trace st') = trace st \<and>
      (new_events st st' = [] \<or> new_events st st' = [Native ''Global::Reset'']))"

section \<open>A table engine for concrete runs\<close>

text \<open>
  Concrete runs need an engine. The one below answers from small tables. Two of its
  answers are parameters, because the bridge cannot decide them and engines differ:
  \<^item> \<open>absent\<close>: what \<^verbatim>\<open>GetRealNamedProperty\<close> returns for a key the object never got, an
    empty handle (\<open>None\<close>) or a value such as \<open>Undefined\<close>;
  \<^item> \<open>keep\<close>: whether \<^verbatim>\<open>Context::New\<close>, given a global object to reuse, keeps the
    properties of that object or keeps only its identity and resets its state.
\<close>

datatype demo_ref =
    Undefined | Null | Num int | Str string | Exc string
  | Obj nat | Script string | Tmpl nat | Ctx nat | Fn demo_ref

datatype demo_prop = Field demo_ref | Throwing demo_ref

record demo_heap =
  caught :: "demo_ref option"
  props :: "nat \<Rightarrow> (string \<times> demo_prop) list"
  template_slots :: "nat \<Rightarrow> (string \<times> demo_ref) list"
  global_of :: "nat \<rightharpoonup> nat"
  next_id :: nat

definition demo_read :: "demo_heap \<Rightarrow> nat \<Rightarrow> string \<Rightarrow> demo_ref option \<Rightarrow> demo_ref option \<times> demo_heap" where
  "demo_read e n k absent =
     (case map_of (props e n) k of
        None \<Rightarrow> (absent, e)
      | Some (Field v) \<Rightarrow> (Some v, e)
      | Some (Throwing x) \<Rightarrow> (None, e\<lparr>caught := Some x\<rparr>))"

definition demo_run :: "demo_heap \<Rightarrow> demo_ref \<Rightarrow> demo_ref \<Rightarrow> demo_ref option \<times> demo_heap" where
  "demo_run e script ctx =
     (case (script, ctx) of
        (Script s, Ctx c) \<Rightarrow>
          (case global_of e c of
             None \<Rightarrow> (None, e\<lparr>caught := Some (Exc ''detached'')\<rparr>)
           | Some g \<Rightarrow>
               if s = ''40 + 2'' then (Some (Num 42), e)
               else if s = ''throw 1'' then (None, e\<lparr>caught := Some (Num 1)\<rparr>)
               else if s = ''this'' then (Some (Obj g), e)
               else if s = ''s = String(42); s'' then (Some (Str ''42''), e)
               else if s = ''x = 7''
                 then (Some (Num 7), e\<lparr>props := (props e)(g := (''x'', Field (Num 7)) # props e g)\<rparr>)
               else if s = ''x''
                 then demo_read e g ''x'' None
               else (Some Undefined, e))
      | _ \<Rightarrow> (None, e))"

definition demo_engine :: "demo_ref option \<Rightarrow> bool \<Rightarrow> (demo_heap, demo_ref) engine" where
  "demo_engine absent keep =
     \<lparr> ObjectTemplate_New = (\<lambda>e. (Some (Tmpl (next_id e)), e\<lparr>next_id := Suc (next_id e)\<rparr>)),
       ObjectTemplate_Set = (\<lambda>e t name fn.
          case (t, name, fn) of
            (Tmpl n, Some (Str s), Some f) \<Rightarrow>
              e\<lparr>template_slots := (template_slots e)(n := (s, f) # template_slots e n)\<rparr>
          | _ \<Rightarrow> e),
       FunctionTemplate_New = (\<lambda>e data. (Some (Fn data), e)),
       Integer_New = (\<lambda>e i. (Num (sint i), e)),
       Context_New = (\<lambda>e t g.
          case g of
            None \<Rightarrow>
              (Some (Ctx (next_id e)),
               e\<lparr>global_of := (global_of e)(next_id e \<mapsto> Suc (next_id e)),
                 next_id := Suc (Suc (next_id e))\<rparr>)
          | Some (Obj n) \<Rightarrow>
              (Some (Ctx (next_id e)),
               e\<lparr>global_of := (global_of e)(next_id e \<mapsto> n),
                 props := (if keep then props e else (props e)(n := [])),
                 next_id := Suc (next_id e)\<rparr>)
          | Some _ \<Rightarrow> (None, e)),
       Context_Global = (\<lambda>e c.
          case c of Ctx n \<Rightarrow> (map_option Obj (global_of e n), e) | _ \<Rightarrow> (None, e)),
       Context_DetachGlobal = (\<lambda>e c.
          case c of Ctx n \<Rightarrow> e\<lparr>global_of := (global_of e)(n := None)\<rparr> | _ \<Rightarrow> e),
       String_NewFromUtf8 = (\<lambda>e s. (Some (Str s), e)),
       Script_Compile = (\<lambda>e src.
          case src of
            Some (Str s) \<Rightarrow>
              if s = ''{'' then (None, e\<lparr>caught := Some (Exc ''SyntaxError'')\<rparr>)
              else (Some (Script s), e)
          | _ \<Rightarrow> (None, e)),
       Script_Run = demo_run,
       TryCatch_Exception = caught,
       Value_ToInteger = (\<lambda>e v. case v of Num k \<Rightarrow> (Some (Num k), e) | _ \<Rightarrow> (Some (Num 0), e)),
       Value_IntegerValue = (\<lambda>e v. case v of Num k \<Rightarrow> word_of_int k | _ \<Rightarrow> 0),
       Value_Int32Value = (\<lambda>e v. (case v of Num k \<Rightarrow> word_of_int k | _ \<Rightarrow> 0, e)),
       Value_ToObject = (\<lambda>e v.
          case v of
            Undefined \<Rightarrow> (None, e\<lparr>caught := Some (Exc ''TypeError'')\<rparr>)
          | Null \<Rightarrow> (None, e\<lparr>caught := Some (Exc ''TypeError'')\<rparr>)
          | _ \<Rightarrow> (Some v, e)),
       Object_GetRealNamedProperty = (\<lambda>e ob key.
          case (ob, key) of
            (Obj n, Some (Str k)) \<Rightarrow> demo_read e n k absent
          | _ \<Rightarrow> (absent, e)),
       Utf8Value = (\<lambda>e l.
          case l of
            Some (Str s) \<Rightarrow> (Some (map (\<lambda>c. of_nat (of_char c)) s), e)
          | _ \<Rightarrow> (None, e)),
       Value_IsNull = (\<lambda>e v. v = Null),
       Value_IsUndefined = (\<lambda>e v. v = Undefined),
       Value_IsBoolean = (\<lambda>e v. False),
       Value_IsNumber = (\<lambda>e v. case v of Num k \<Rightarrow> True | _ \<Rightarrow> False),
       Value_IsString = (\<lambda>e v. case v of Str s \<Rightarrow> True | _ \<Rightarrow> False),
       Value_IsObject = (\<lambda>e v. case v of Obj n \<Rightarrow> True | _ \<Rightarrow> False) \<rparr>"

text \<open>
  A state to start from: the template \<open>Tmpl 0\<close> behind the handle at address 1, the
  context \<open>Ctx 1\<close> with global object \<open>Obj 2\<close> behind the handle at address 2, a handle on
  the global object at address 3, on the string \<open>''42''\<close> at address 4 and on the number 5
  at address 6. The object has a property \<open>''boom''\<close> whose accessor throws. The host's memory
  holds a buffer of two bytes at address 9, and every out-parameter slot holds
  \<^verbatim>\<open>nullptr\<close>.
\<close>

definition demo_heap0 :: demo_heap where
  "demo_heap0 =
     \<lparr> caught = None,
       props = (\<lambda>n. if n = 2 then [(''boom'', Throwing (Exc ''Error: boom''))] else []),
       template_slots = (\<lambda>n. []),
       global_of = [1 \<mapsto> 2],
       next_id = 3 \<rparr>"

definition demo_state :: "(demo_heap, demo_ref) state" where
  "demo_state =
     \<lparr> eng = demo_heap0,
       globals = [1 \<mapsto> Some (Tmpl 0), 2 \<mapsto> Some (Ctx 1), 3 \<mapsto> Some (Obj 2),
                  4 \<mapsto> Some (Str ''42''), 6 \<mapsto> Some (Num 5)],
       fresh = 7,
       slots = (\<lambda>a. nullptr),
       mem = [9 \<mapsto> [170, 187]],
       trace = [] \<rparr>"

text \<open>The same state after the script \<open>''x = 7''\<close> has run in the context: the global
  object has the property \<open>''x''\<close>.\<close>

definition demo_state_x :: "(demo_heap, demo_ref) state" where
  "demo_state_x =
     demo_state
       \<lparr> eng := demo_heap0
                 \<lparr> props := (\<lambda>n. if n = 2 then [(''x'', Field (Num 7)),
                                                 (''boom'', Throwing (Exc ''Error: boom''))]
                                 else []) \<rparr> \<rparr>"

text \<open>A dispatch function of the host that records what it is called with: the
  identifier in slot 100, the argument count in slot 101, the handles in the slots from 0
  upwards, and one event.\<close>

definition demo_dispatch :: "(demo_heap, demo_ref) dispatch" where
  "demo_dispatch isolate callId vals n sink st =
     logs [Native ''swiftCallback'']
       (st\<lparr>slots := (\<lambda>a. if a < length vals then vals ! a
                          else if a = 100 then Addr (unat callId)
                          else if a = 101 then Addr (nat n)
                          else slots st a)\<rparr>)"

text \<open>A call from script code: the function registered under 7 is called with the
  arguments \<open>1\<close> and \<open>''x''\<close>.\<close>

definition demo_call :: "demo_ref FunctionCallbackInfo" where
  "demo_call =
     \<lparr> args_Data = Num 7, args_GetIsolate = 0, args_at = [Num 1, Str ''x''],
       args_GetReturnValue = 3 \<rparr>"

text \<open>How the table engine calls the function in a slot of a template: it passes the data
  of the function template in that slot, isolate 0, and the arguments and the return value
  of the call.\<close>

definition demo_invoke ::
  "demo_heap \<Rightarrow> nat \<Rightarrow> string \<Rightarrow> demo_ref list \<Rightarrow> nat \<Rightarrow> demo_ref FunctionCallbackInfo option" where
  "demo_invoke e tmpl name argv ret =
     (case map_of (template_slots e tmpl) name of
        Some (Fn d) \<Rightarrow>
          Some \<lparr> args_Data = d, args_GetIsolate = 0, args_at = argv, args_GetReturnValue = ret \<rparr>
      | _ \<Rightarrow> None)"

section \<open>Properties of the allocator\<close>

text \<open>
  C9. For every requested length, \<^verbatim>\<open>Allocate\<close> returns either \<^verbatim>\<open>NULL\<close> or a block whose
  first \<^verbatim>\<open>length\<close> bytes are all zero, and \<^verbatim>\<open>AllocateUninitialized\<close> is exactly the answer
  of the system allocator. The block \<^verbatim>\<open>malloc\<close> returns is taken to hold at least the
  requested number of bytes, which is the contract of \<^verbatim>\<open>malloc\<close>.
\<close>

theorem Allocate_zeroed_or_null:
  assumes contract: "malloc_contract malloc h len"
  shows "AllocateUninitialized malloc h len = malloc h len \<and>
         (\<exists>p h'. Allocate malloc h len = Inr (p, h') \<and> p = fst (malloc h len) \<and>
            (p = nullptr \<or>
             (\<exists>a blk. p = Addr a \<and> h' a = Some blk \<and> take len blk = replicate len 0)))"
proof (cases "malloc h len")
  case (Pair data h1)
  show ?thesis
  proof (cases data)
    case nullptr
    with Pair show ?thesis
      by (simp add: Allocate_def AllocateUninitialized_def)
  next
    case (Addr a)
    with Pair contract obtain blk where blk: "h1 a = Some blk" "len \<le> length blk"
      by (auto simp: malloc_contract_def split: option.splits)
    with Pair Addr show ?thesis
      by (simp add: Allocate_def AllocateUninitialized_def memset_def)
  qed
qed

theorem Allocate_zeroed_or_null_witness:
  "malloc_contract demo_malloc Map.empty 3 \<and>
   AllocateUninitialized demo_malloc Map.empty 3 = (Addr 7, [7 \<mapsto> [170, 170, 170]]) \<and>
   (\<exists>h'. Allocate demo_malloc Map.empty 3 = Inr (Addr 7, h') \<and> h' 7 = Some [0, 0, 0])"
proof -
  have c: "malloc_contract demo_malloc Map.empty 3"
    by (simp add: malloc_contract_def demo_malloc_def)
  from Allocate_zeroed_or_null [OF c] c
  show ?thesis
    by (simp add: demo_malloc_def Allocate_def AllocateUninitialized_def memset_def
        numeral_3_eq_3)
qed

section \<open>The two outputs of evaluate and getProperty\<close>

lemmas step_defs = logs_def enter_def unwind_def new_Global_def Global_Get_def

lemmas demo_defs = demo_engine_def demo_state_def demo_heap0_def demo_run_def demo_read_def

text \<open>Once the context handle is valid and the engine calls of lines 130 to 132 have come
  back with \<open>result\<close>, \<open>evaluate\<close> returns, and its outputs are decided by \<open>result\<close> and by
  the out-pointer alone. The same holds for \<open>getProperty\<close> and lines 281 to 283.\<close>

lemma evaluate_outputs:
  assumes "globals st c = Some (Some ctx)"
    and "run_source E (eng st) ctx src = Inr (result, e')"
  shows "\<exists>res st'. evaluate E i (Addr c) src exc st = Inr (res, st') \<and> mem st' = mem st \<and>
            (result \<noteq> None \<longrightarrow> res \<noteq> nullptr \<and> slots st' = slots st) \<and>
            (result = None \<longrightarrow> res = nullptr \<and>
               (case exc of
                  nullptr \<Rightarrow> slots st' = slots st
                | Addr x \<Rightarrow> slots st' = (slots st)(x := Addr (fresh st))))"
  using assms by (cases result; cases exc) (simp_all add: evaluate_def step_defs)

lemma getProperty_outputs:
  assumes "globals st h = Some (Some v)"
    and "lookup_named E (eng st) v key = Inr (result, e')"
  shows "\<exists>res st'. getProperty E i (Addr h) key exc st = Inr (res, st') \<and> mem st' = mem st \<and>
            (result \<noteq> None \<longrightarrow> res \<noteq> nullptr \<and> slots st' = slots st) \<and>
            (result = None \<longrightarrow> res = nullptr \<and>
               (case exc of
                  nullptr \<Rightarrow> slots st' = slots st
                | Addr x \<Rightarrow> slots st' = (slots st)(x := Addr (fresh st))))"
  using assms by (cases result; cases exc) (simp_all add: getProperty_def step_defs)

text \<open>Four runs on the table engine, used below.\<close>

lemma demo_run_number:
  "run_source (demo_engine None False) (eng demo_state) (Ctx 1) ''40 + 2''
     = Inr (Some (Num 42), demo_heap0)"
  by (simp add: run_source_def demo_defs)

lemma demo_run_throw:
  "run_source (demo_engine None False) (eng demo_state) (Ctx 1) ''throw 1''
     = Inr (None, demo_heap0\<lparr>caught := Some (Num 1)\<rparr>)"
  by (simp add: run_source_def demo_defs)

lemma demo_lookup_boom:
  "lookup_named (demo_engine absent False) (eng demo_state) (Obj 2) ''boom''
     = Inr (None, demo_heap0\<lparr>caught := Some (Exc ''Error: boom'')\<rparr>)"
  by (simp add: lookup_named_def demo_defs)

lemma demo_lookup_absent:
  "lookup_named (demo_engine absent False) (eng demo_state) (Obj 2) ''nokey''
     = Inr (absent, demo_heap0)"
  by (simp add: lookup_named_def demo_defs)

text \<open>
  C10, as amended. \<open>evaluate\<close> and \<open>getProperty\<close> write to the exception out-parameter
  exactly when the engine's result (of \<^verbatim>\<open>Script::Run\<close>, of \<^verbatim>\<open>GetRealNamedProperty\<close>) comes back
  empty and the out-pointer is not null, whether or not an exception was thrown. On a
  result that is not empty a handle is returned and every slot of the host keeps its
  contents; on an empty result with a null out-pointer \<^verbatim>\<open>nullptr\<close> is returned and nothing is
  written; on an empty result with a non-null out-pointer exactly the slot it points at is
  written. Byte buffers are never touched. A call whose script handle or object handle is
  empty does not reach this code (it ends in a fault, the first half of the
  counterexample) and is left out; the second half of the counterexample is a lookup that
  throws nothing and still has the exception slot written.
\<close>

theorem exception_written_iff_result_empty:
  "(globals st c = Some (Some ctx) \<and> run_source E (eng st) ctx src = Inr (result, e1) \<longrightarrow>
      (\<exists>res st'. evaluate E i (Addr c) src exc st = Inr (res, st') \<and> mem st' = mem st \<and>
         (result \<noteq> None \<longrightarrow> res \<noteq> nullptr \<and> slots st' = slots st) \<and>
         (result = None \<longrightarrow> res = nullptr \<and>
            (case exc of
               nullptr \<Rightarrow> slots st' = slots st
             | Addr x \<Rightarrow> slots st' = (slots st)(x := Addr (fresh st)))))) \<and>
   (globals st h = Some (Some v) \<and> lookup_named E (eng st) v key = Inr (found, e2) \<longrightarrow>
      (\<exists>res st'. getProperty E i (Addr h) key exc st = Inr (res, st') \<and> mem st' = mem st \<and>
         (found \<noteq> None \<longrightarrow> res \<noteq> nullptr \<and> slots st' = slots st) \<and>
         (found = None \<longrightarrow> res = nullptr \<and>
            (case exc of
               nullptr \<Rightarrow> slots st' = slots st
             | Addr x \<Rightarrow> slots st' = (slots st)(x := Addr (fresh st))))))"
  using evaluate_outputs [of st c ctx E src result e1 i exc]
    getProperty_outputs [of st h v E key found e2 i exc]
  by blast

theorem exception_written_iff_result_empty_witness:
  "globals demo_state 2 = Some (Some (Ctx 1)) \<and>
   run_source (demo_engine None False) (eng demo_state) (Ctx 1) ''40 + 2''
     = Inr (Some (Num 42), demo_heap0) \<and>
   globals demo_state 3 = Some (Some (Obj 2)) \<and>
   lookup_named (demo_engine None False) (eng demo_state) (Obj 2) ''boom''
     = Inr (None, demo_heap0\<lparr>caught := Some (Exc ''Error: boom'')\<rparr>) \<and>
   (\<exists>res st'. evaluate (demo_engine None False) 0 (Addr 2) ''40 + 2'' (Addr 5) demo_state
        = Inr (res, st') \<and> res \<noteq> nullptr \<and> slots st' = slots demo_state) \<and>
   (\<exists>st'. getProperty (demo_engine None False) 0 (Addr 3) ''boom'' nullptr demo_state
        = Inr (nullptr, st') \<and> slots st' = slots demo_state)"
proof -
  have c: "globals demo_state 2 = Some (Some (Ctx 1))"
    and v: "globals demo_state 3 = Some (Some (Obj 2))"
    by (simp_all add: demo_state_def)
  from exception_written_iff_result_empty
         [of demo_state 2 "Ctx 1" "demo_engine None False" "''40 + 2''" "Some (Num 42)"
             demo_heap0 0 "Addr 5" 3 "Obj 2" "''boom''" None
             "demo_heap0\<lparr>caught := Some (Exc ''Error: boom'')\<rparr>"]
    exception_written_iff_result_empty
         [of demo_state 2 "Ctx 1" "demo_engine None False" "''40 + 2''" "Some (Num 42)"
             demo_heap0 0 nullptr 3 "Obj 2" "''boom''" None
             "demo_heap0\<lparr>caught := Some (Exc ''Error: boom'')\<rparr>"]
    c v demo_run_number demo_lookup_boom [of None]
  show ?thesis by auto
qed

theorem fault_instead_of_null_counterexample:
  "evaluate (demo_engine None False) 0 (Addr 2) ''{'' nullptr demo_state = Inl EmptyHandle \<and>
   getProperty (demo_engine None False) 0 (Addr 5) ''x'' nullptr
     (demo_state\<lparr>globals := (globals demo_state)(5 \<mapsto> Some Null)\<rparr>) = Inl EmptyHandle \<and>
   lookup_named (demo_engine None False) (eng demo_state) (Obj 2) ''nokey''
     = Inr (None, demo_heap0) \<and>
   TryCatch_Exception (demo_engine None False) demo_heap0 = None \<and>
   slots (state_of (getProperty (demo_engine None False) 0 (Addr 3) ''nokey'' (Addr 5) demo_state)) 5
     = Addr 7"
  by (simp add: state_of_def evaluate_def getProperty_def run_source_def lookup_named_def
        step_defs demo_defs Let_def)

text \<open>
  C2, as amended. A call of \<open>evaluate\<close> or \<open>getProperty\<close> with a non-null exception
  out-pointer whose slot holds \<^verbatim>\<open>nullptr\<close> on entry, and whose engine calls come back,
  produces exactly one output: a non-null result with the slot still \<^verbatim>\<open>nullptr\<close>, or a
  \<^verbatim>\<open>nullptr\<close> result with a non-null handle in the slot. With a null out-pointer a failing
  call returns \<^verbatim>\<open>nullptr\<close> and produces no exception output at all (the counterexample).
\<close>

theorem exactly_one_output:
  "(globals st c = Some (Some ctx) \<and> run_source E (eng st) ctx src = Inr (result, e1) \<and>
    slots st x = nullptr \<longrightarrow>
      (\<exists>res st'. evaluate E i (Addr c) src (Addr x) st = Inr (res, st') \<and>
         (res \<noteq> nullptr \<and> slots st' x = nullptr \<or> res = nullptr \<and> slots st' x \<noteq> nullptr))) \<and>
   (globals st h = Some (Some v) \<and> lookup_named E (eng st) v key = Inr (found, e2) \<and>
    slots st x = nullptr \<longrightarrow>
      (\<exists>res st'. getProperty E i (Addr h) key (Addr x) st = Inr (res, st') \<and>
         (res \<noteq> nullptr \<and> slots st' x = nullptr \<or> res = nullptr \<and> slots st' x \<noteq> nullptr)))"
proof (intro conjI impI)
  assume a: "globals st c = Some (Some ctx) \<and> run_source E (eng st) ctx src = Inr (result, e1) \<and>
    slots st x = nullptr"
  with evaluate_outputs [of st c ctx E src result e1 i "Addr x"]
  obtain res st' where
    r: "evaluate E i (Addr c) src (Addr x) st = Inr (res, st')"
      "result \<noteq> None \<longrightarrow> res \<noteq> nullptr \<and> slots st' = slots st"
      "result = None \<longrightarrow> res = nullptr \<and> slots st' = (slots st)(x := Addr (fresh st))"
    by auto
  from a r(2,3) have
    "res \<noteq> nullptr \<and> slots st' x = nullptr \<or> res = nullptr \<and> slots st' x \<noteq> nullptr"
    by (cases result) simp_all
  with r(1) show "\<exists>res st'. evaluate E i (Addr c) src (Addr x) st = Inr (res, st') \<and>
         (res \<noteq> nullptr \<and> slots st' x = nullptr \<or> res = nullptr \<and> slots st' x \<noteq> nullptr)"
    by blast
next
  assume a: "globals st h = Some (Some v) \<and> lookup_named E (eng st) v key = Inr (found, e2) \<and>
    slots st x = nullptr"
  with getProperty_outputs [of st h v E key found e2 i "Addr x"]
  obtain res st' where
    r: "getProperty E i (Addr h) key (Addr x) st = Inr (res, st')"
      "found \<noteq> None \<longrightarrow> res \<noteq> nullptr \<and> slots st' = slots st"
      "found = None \<longrightarrow> res = nullptr \<and> slots st' = (slots st)(x := Addr (fresh st))"
    by auto
  from a r(2,3) have
    "res \<noteq> nullptr \<and> slots st' x = nullptr \<or> res = nullptr \<and> slots st' x \<noteq> nullptr"
    by (cases found) simp_all
  with r(1) show "\<exists>res st'. getProperty E i (Addr h) key (Addr x) st = Inr (res, st') \<and>
         (res \<noteq> nullptr \<and> slots st' x = nullptr \<or> res = nullptr \<and> slots st' x \<noteq> nullptr)"
    by blast
qed

theorem exactly_one_output_witness:
  "globals demo_state 2 = Some (Some (Ctx 1)) \<and>
   run_source (demo_engine None False) (eng demo_state) (Ctx 1) ''throw 1''
     = Inr (None, demo_heap0\<lparr>caught := Some (Num 1)\<rparr>) \<and>
   globals demo_state 3 = Some (Some (Obj 2)) \<and>
   lookup_named (demo_engine None False) (eng demo_state) (Obj 2) ''boom''
     = Inr (None, demo_heap0\<lparr>caught := Some (Exc ''Error: boom'')\<rparr>) \<and>
   slots demo_state 5 = nullptr \<and>
   (\<exists>st'. evaluate (demo_engine None False) 0 (Addr 2) ''throw 1'' (Addr 5) demo_state
        = Inr (nullptr, st') \<and> slots st' 5 = Addr 7) \<and>
   (\<exists>st'. getProperty (demo_engine None False) 0 (Addr 3) ''boom'' (Addr 5) demo_state
        = Inr (nullptr, st') \<and> slots st' 5 = Addr 7)"
proof -
  have c: "globals demo_state 2 = Some (Some (Ctx 1))"
    and v: "globals demo_state 3 = Some (Some (Obj 2))"
    and s: "slots demo_state 5 = nullptr"
    by (simp_all add: demo_state_def)
  have ev: "\<exists>st'. evaluate (demo_engine None False) 0 (Addr 2) ''throw 1'' (Addr 5) demo_state
        = Inr (nullptr, st') \<and> slots st' 5 = Addr 7"
    by (simp add: evaluate_def step_defs run_source_def demo_defs)
  have gp: "\<exists>st'. getProperty (demo_engine None False) 0 (Addr 3) ''boom'' (Addr 5) demo_state
        = Inr (nullptr, st') \<and> slots st' 5 = Addr 7"
    by (simp add: getProperty_def step_defs lookup_named_def demo_defs)
  from exactly_one_output
         [of demo_state 2 "Ctx 1" "demo_engine None False" "''throw 1''" None
             "demo_heap0\<lparr>caught := Some (Num 1)\<rparr>" 5 0 3 "Obj 2" "''boom''" None
             "demo_heap0\<lparr>caught := Some (Exc ''Error: boom'')\<rparr>"]
    c v s ev gp demo_run_throw demo_lookup_boom [of None]
  show ?thesis by blast
qed

theorem both_outputs_null_counterexample:
  "evaluate (demo_engine None False) 0 (Addr 2) ''throw 1'' nullptr demo_state
     = Inr (nullptr,
            demo_state
              \<lparr> eng := demo_heap0\<lparr>caught := Some (Num 1)\<rparr>,
                trace :=
                  [Enter (Locker 0), Enter (TryCatch 0), Enter (IsolateScope 0),
                   Enter (HandleScope 0), Native ''Global::Get'', Enter ContextScope,
                   Native ''String::NewFromUtf8'', Native ''Script::Compile'',
                   Native ''Script::Run'', Leave ContextScope, Leave (HandleScope 0),
                   Leave (IsolateScope 0), Leave (TryCatch 0), Leave (Locker 0)] \<rparr>)"
  by (simp add: evaluate_def step_defs run_source_def demo_defs)

text \<open>
  C3. For source text the engine fails to compile, \<^verbatim>\<open>Script::Compile\<close> returns an empty
  handle. \<open>evaluate\<close> does not test it: line 132 calls \<^verbatim>\<open>Run\<close> through the empty handle,
  and the branch of lines 134 to 139 that would store the exception is never reached.
\<close>

theorem evaluate_compile_failure:
  assumes "globals st c = Some (Some ctx)"
    and "String_NewFromUtf8 E (eng st) src = (source, e1)"
    and "Script_Compile E e1 source = (None, e2)"
  shows "evaluate E i (Addr c) src exc st = Inl EmptyHandle"
  using assms by (simp add: evaluate_def step_defs run_source_def)

theorem evaluate_compile_failure_witness:
  "globals demo_state 2 = Some (Some (Ctx 1)) \<and>
   String_NewFromUtf8 (demo_engine None False) (eng demo_state) ''{''
     = (Some (Str ''{''), demo_heap0) \<and>
   Script_Compile (demo_engine None False) demo_heap0 (Some (Str ''{''))
     = (None, demo_heap0\<lparr>caught := Some (Exc ''SyntaxError'')\<rparr>) \<and>
   evaluate (demo_engine None False) 0 (Addr 2) ''{'' (Addr 5) demo_state = Inl EmptyHandle"
proof -
  have a: "globals demo_state 2 = Some (Some (Ctx 1))"
    and b: "String_NewFromUtf8 (demo_engine None False) (eng demo_state) ''{''
              = (Some (Str ''{''), demo_heap0)"
    and c: "Script_Compile (demo_engine None False) demo_heap0 (Some (Str ''{''))
              = (None, demo_heap0\<lparr>caught := Some (Exc ''SyntaxError'')\<rparr>)"
    by (simp_all add: demo_defs)
  from evaluate_compile_failure [OF a b c, of 0 "Addr 5"] a b c
  show ?thesis by simp
qed

text \<open>
  C4, as amended. For an object-valued handle, \<open>getProperty\<close> passes on what the engine's
  \<^verbatim>\<open>GetRealNamedProperty\<close> answers. When the answer is a value, the result is a new handle
  on that value and no exception is written; \<open>isUndefined\<close> of the result is what the engine
  says of the value, so it is true when the engine reports a key that was never set as
  the undefined value. When the answer is an empty handle, as for an accessor that throws,
  the result is \<^verbatim>\<open>nullptr\<close> and the slot behind a non-null out-pointer receives a new
  handle that wraps \<^verbatim>\<open>TryCatch::Exception()\<close>. An engine that reports a key that was never
  set as an empty handle is treated the same way (the counterexample): the result is
  \<^verbatim>\<open>nullptr\<close> and the exception handle wraps an empty handle.
\<close>

theorem getProperty_follows_lookup:
  "globals st h = Some (Some v) \<and> lookup_named E (eng st) v key = Inr (found, e1) \<longrightarrow>
     (\<forall>r. found = Some r \<longrightarrow>
        (\<exists>st'. getProperty E i (Addr h) key exc st = Inr (Addr (fresh st), st') \<and>
           slots st' = slots st \<and> globals st' (fresh st) = Some (Some r) \<and> eng st' = e1 \<and>
           (\<exists>st''. isUndefined E i (Addr (fresh st)) st'
                     = Inr (Value_IsUndefined E e1 r, st'')))) \<and>
     (found = None \<longrightarrow>
        (\<exists>st'. getProperty E i (Addr h) key (Addr x) st = Inr (nullptr, st') \<and>
           slots st' x = Addr (fresh st) \<and>
           globals st' (fresh st) = Some (TryCatch_Exception E e1)))"
  by (cases found)
     (simp_all add: getProperty_def isUndefined_def type_check_def GlobalValue_def step_defs)

theorem getProperty_follows_lookup_witness:
  "globals demo_state 3 = Some (Some (Obj 2)) \<and>
   lookup_named (demo_engine (Some Undefined) False) (eng demo_state) (Obj 2) ''nokey''
     = Inr (Some Undefined, demo_heap0) \<and>
   lookup_named (demo_engine (Some Undefined) False) (eng demo_state) (Obj 2) ''boom''
     = Inr (None, demo_heap0\<lparr>caught := Some (Exc ''Error: boom'')\<rparr>) \<and>
   (\<exists>st'. getProperty (demo_engine (Some Undefined) False) 0 (Addr 3) ''nokey'' (Addr 5) demo_state
             = Inr (Addr 7, st') \<and> slots st' = slots demo_state \<and>
           (\<exists>st''. isUndefined (demo_engine (Some Undefined) False) 0 (Addr 7) st'
                      = Inr (True, st''))) \<and>
   (\<exists>st'. getProperty (demo_engine (Some Undefined) False) 0 (Addr 3) ''boom'' (Addr 5) demo_state
             = Inr (nullptr, st') \<and> slots st' 5 = Addr 7 \<and>
           globals st' 7 = Some (Some (Exc ''Error: boom'')))"
proof -
  have v: "globals demo_state 3 = Some (Some (Obj 2))"
    and f: "fresh demo_state = 7"
    by (simp_all add: demo_state_def)
  have u: "Value_IsUndefined (demo_engine (Some Undefined) False) demo_heap0 Undefined"
    and t: "TryCatch_Exception (demo_engine (Some Undefined) False)
              (demo_heap0\<lparr>caught := Some (Exc ''Error: boom'')\<rparr>) = Some (Exc ''Error: boom'')"
    by (simp_all add: demo_engine_def)
  note la = demo_lookup_absent [of "Some Undefined"]
  note lb = demo_lookup_boom [of "Some Undefined"]
  from getProperty_follows_lookup
         [of demo_state 3 "Obj 2" "demo_engine (Some Undefined) False" "''nokey''"
             "Some Undefined" demo_heap0 0 "Addr 5" 5] v la
  have A: "\<exists>st'. getProperty (demo_engine (Some Undefined) False) 0 (Addr 3) ''nokey'' (Addr 5) demo_state
             = Inr (Addr 7, st') \<and> slots st' = slots demo_state \<and>
           (\<exists>st''. isUndefined (demo_engine (Some Undefined) False) 0 (Addr 7) st'
                      = Inr (True, st''))"
    by (simp add: f u) blast
  from getProperty_follows_lookup
         [of demo_state 3 "Obj 2" "demo_engine (Some Undefined) False" "''boom''"
             None "demo_heap0\<lparr>caught := Some (Exc ''Error: boom'')\<rparr>" 0 "Addr 5" 5] v lb
  have B: "\<exists>st'. getProperty (demo_engine (Some Undefined) False) 0 (Addr 3) ''boom'' (Addr 5) demo_state
             = Inr (nullptr, st') \<and> slots st' 5 = Addr 7 \<and>
           globals st' 7 = Some (Some (Exc ''Error: boom''))"
    by (simp add: f t)
  from v la lb A B show ?thesis by blast
qed

theorem absent_key_counterexample:
  "lookup_named (demo_engine None False) (eng demo_state) (Obj 2) ''nokey''
     = Inr (None, demo_heap0) \<and>
   getProperty (demo_engine None False) 0 (Addr 3) ''nokey'' (Addr 5) demo_state
     = Inr (nullptr,
            demo_state
              \<lparr> globals := (globals demo_state)(7 \<mapsto> None),
                fresh := 8,
                slots := (slots demo_state)(5 := Addr 7),
                trace :=
                  [Enter (Locker 0), Enter (TryCatch 0), Enter (IsolateScope 0),
                   Enter (HandleScope 0), Native ''Global::Get'', Native ''Value::ToObject'',
                   Native ''String::NewFromUtf8'', Native ''Object::GetRealNamedProperty'',
                   Native ''TryCatch::Exception'', Leave (HandleScope 0),
                   Leave (IsolateScope 0), Leave (TryCatch 0), Leave (Locker 0)] \<rparr>)"
  by (simp add: getProperty_def step_defs lookup_named_def demo_defs)

section \<open>UTF-8 length and copy\<close>

lemma size_t_of_count:
  "0 \<le> count \<Longrightarrow> count < 2 ^ 31 \<Longrightarrow> nat (count mod 2 ^ 64) = nat count"
  by simp

lemma overwrite_prefix:
  assumes "n \<le> length xs" and "n \<le> length ys"
  shows "length (take n xs @ drop n ys) = length ys"
    and "take n (take n xs @ drop n ys) = take n xs"
    and "drop n (take n xs @ drop n ys) = drop n ys"
  using assms by (simp_all add: min_absorb2)

lemma copyUtf8String_effect:
  assumes "globals st h = Some l"
    and "Utf8Value E (eng st) l = (Some S, e1)"
    and "mem st b = Some blk"
    and "0 \<le> count" and "count < 2 ^ 31"
    and "nat count \<le> length S + 1" and "nat count \<le> length blk"
  shows "\<exists>st'. copyUtf8String E i (Addr h) (Addr b) count st = Inr ((), st') \<and>
           mem st' = (mem st)(b \<mapsto> take (nat count) (S @ [0]) @ drop (nat count) blk) \<and>
           slots st' = slots st \<and> globals st' = globals st \<and> eng st' = e1"
  using assms
  by (cases l)
     (simp_all add: copyUtf8String_def GlobalValue_def step_defs memcpy_def size_t_of_count)

lemma getUtf8StringLength_effect:
  assumes "globals st h = Some l"
    and "Utf8Value E (eng st) l = (utf8, e1)"
  shows "\<exists>st'. getUtf8StringLength E i (Addr h) st
            = Inr (case utf8 of None \<Rightarrow> 0 | Some bs \<Rightarrow> int (length bs), st') \<and>
           mem st' = mem st \<and> slots st' = slots st \<and> globals st' = globals st \<and> eng st' = e1"
  using assms
  by (cases l) (simp_all add: getUtf8StringLength_def GlobalValue_def step_defs)

lemma evaluate_success:
  assumes "globals st c = Some (Some ctx)"
    and "run_source E (eng st) ctx src = Inr (Some v, e1)"
  shows "\<exists>st'. evaluate E i (Addr c) src exc st = Inr (Addr (fresh st), st') \<and>
           globals st' = (globals st)(fresh st \<mapsto> Some v) \<and> eng st' = e1 \<and>
           mem st' = mem st \<and> slots st' = slots st"
  using assms by (simp add: evaluate_def step_defs)

lemma demo_run_string:
  "run_source (demo_engine None False) (eng demo_state) (Ctx 1) ''s = String(42); s''
     = Inr (Some (Str ''42''), demo_heap0)"
  by (simp add: run_source_def demo_defs)

lemma demo_encode:
  "Utf8Value (demo_engine None False) e (Some (Str ''42'')) = (Some [52, 50], e)"
  by (simp add: demo_engine_def)

text \<open>
  C7. A script is evaluated to a value handle, and the engine encodes the value as the
  bytes \<open>S\<close> (for a string value the encoding runs no script code, so the engine state
  stays as it is). Then \<open>getUtf8StringLength\<close> returns the length of \<open>S\<close>, and
  \<open>copyUtf8String\<close> with that count into a buffer of exactly that length leaves \<open>S\<close> in
  the buffer, byte for byte. The length fits the \<^verbatim>\<open>int\<close> that the source returns.
\<close>

theorem utf8_roundtrip:
  assumes ctx: "globals st c = Some (Some ctx)"
    and run: "run_source E (eng st) ctx src = Inr (Some v, e1)"
    and enc: "Utf8Value E e1 (Some v) = (Some S, e1)"
    and len: "length S < 2 ^ 31"
    and buf: "mem st b = Some blk" "length blk = length S"
  shows "\<exists>st1 st2 st3. evaluate E i (Addr c) src exc st = Inr (Addr (fresh st), st1) \<and>
           getUtf8StringLength E i (Addr (fresh st)) st1 = Inr (int (length S), st2) \<and>
           copyUtf8String E i (Addr (fresh st)) (Addr b) (int (length S)) st2 = Inr ((), st3) \<and>
           mem st3 b = Some S"
proof -
  from evaluate_success [OF ctx run, of i exc] obtain st1 where
    1: "evaluate E i (Addr c) src exc st = Inr (Addr (fresh st), st1)"
      "globals st1 = (globals st)(fresh st \<mapsto> Some v)" "eng st1 = e1" "mem st1 = mem st"
    by blast
  from 1(2) have g1: "globals st1 (fresh st) = Some (Some v)" by simp
  from enc 1(3) have e1: "Utf8Value E (eng st1) (Some v) = (Some S, e1)" by simp
  from getUtf8StringLength_effect [OF g1 e1, of i] obtain st2 where
    2: "getUtf8StringLength E i (Addr (fresh st)) st1 = Inr (int (length S), st2)"
      "mem st2 = mem st1" "globals st2 = globals st1" "eng st2 = e1"
    by auto
  from 2(3) g1 have g2: "globals st2 (fresh st) = Some (Some v)" by simp
  from enc 2(4) have e2: "Utf8Value E (eng st2) (Some v) = (Some S, e1)" by simp
  from buf 2(2) 1(4) have b2: "mem st2 b = Some blk" by simp
  from len have c: "int (length S) < 2 ^ 31" by simp
  from copyUtf8String_effect [OF g2 e2 b2 _ c, of i] buf(2) obtain st3 where
    3: "copyUtf8String E i (Addr (fresh st)) (Addr b) (int (length S)) st2 = Inr ((), st3)"
      "mem st3 = (mem st2)(b \<mapsto> take (length S) (S @ [0]) @ drop (length S) blk)"
    by auto
  from 3(2) buf(2) have "mem st3 b = Some S" by simp
  with 1(1) 2(1) 3(1) show ?thesis by blast
qed

theorem utf8_roundtrip_witness:
  "globals demo_state 2 = Some (Some (Ctx 1)) \<and>
   run_source (demo_engine None False) (eng demo_state) (Ctx 1) ''s = String(42); s''
     = Inr (Some (Str ''42''), demo_heap0) \<and>
   Utf8Value (demo_engine None False) demo_heap0 (Some (Str ''42'')) = (Some [52, 50], demo_heap0) \<and>
   mem demo_state 9 = Some [170, 187] \<and>
   (\<exists>st1 st2 st3.
      evaluate (demo_engine None False) 0 (Addr 2) ''s = String(42); s'' (Addr 5) demo_state
        = Inr (Addr 7, st1) \<and>
      getUtf8StringLength (demo_engine None False) 0 (Addr 7) st1 = Inr (2, st2) \<and>
      copyUtf8String (demo_engine None False) 0 (Addr 7) (Addr 9) 2 st2 = Inr ((), st3) \<and>
      mem st3 9 = Some [52, 50])"
proof -
  have c: "globals demo_state 2 = Some (Some (Ctx 1))"
    and f: "fresh demo_state = 7"
    and b: "mem demo_state 9 = Some [170, 187]"
    by (simp_all add: demo_state_def)
  have l: "length [52, 50 :: byte] < 2 ^ 31" and k: "length [170, 187 :: byte] = length [52, 50 :: byte]"
    by simp_all
  from utf8_roundtrip [OF c demo_run_string demo_encode l b k, of 0 "Addr 5"]
    c b demo_run_string demo_encode [of demo_heap0]
  show ?thesis by (simp add: f)
qed

text \<open>
  C8, as amended. For a handle whose value the engine encodes as \<open>S\<close>, and a count from 0
  up to the length of \<open>S\<close> plus its terminating NUL that fits the destination buffer,
  \<open>copyUtf8String\<close> writes exactly the first \<open>count\<close> bytes of the encoding to the start of
  the buffer. Every byte of the buffer from offset \<open>count\<close> on keeps its value, so nothing
  is appended, and no other memory changes. The count is not checked: a negative count is
  converted to a huge \<^verbatim>\<open>size_t\<close> and the copy leaves both blocks (the counterexample).
\<close>

theorem copyUtf8String_writes_count_bytes:
  assumes "globals st h = Some l"
    and "Utf8Value E (eng st) l = (Some S, e1)"
    and "mem st b = Some blk"
    and "0 \<le> count" and "count < 2 ^ 31"
    and "nat count \<le> length S + 1" and "nat count \<le> length blk"
  shows "\<exists>st' blk'. copyUtf8String E i (Addr h) (Addr b) count st = Inr ((), st') \<and>
           mem st' = (mem st)(b \<mapsto> blk') \<and> length blk' = length blk \<and>
           take (nat count) blk' = take (nat count) (S @ [0]) \<and>
           drop (nat count) blk' = drop (nat count) blk \<and>
           slots st' = slots st \<and> globals st' = globals st"
proof -
  from copyUtf8String_effect [OF assms, of i] obtain st' where
    1: "copyUtf8String E i (Addr h) (Addr b) count st = Inr ((), st')"
      "mem st' = (mem st)(b \<mapsto> take (nat count) (S @ [0]) @ drop (nat count) blk)"
      "slots st' = slots st" "globals st' = globals st"
    by blast
  let ?blk = "take (nat count) (S @ [0]) @ drop (nat count) blk"
  from assms(6) have "nat count \<le> length (S @ [0])" by simp
  from overwrite_prefix [OF this assms(7)] have "length ?blk = length blk"
    and "take (nat count) ?blk = take (nat count) (S @ [0])"
    and "drop (nat count) ?blk = drop (nat count) blk"
    by blast+
  with 1 show ?thesis by blast
qed

theorem copyUtf8String_writes_count_bytes_witness:
  "globals demo_state 4 = Some (Some (Str ''42'')) \<and>
   Utf8Value (demo_engine None False) (eng demo_state) (Some (Str ''42''))
     = (Some [52, 50], eng demo_state) \<and>
   mem demo_state 9 = Some [170, 187] \<and>
   (\<exists>st'. copyUtf8String (demo_engine None False) 0 (Addr 4) (Addr 9) 1 demo_state = Inr ((), st') \<and>
      mem st' = (mem demo_state)(9 \<mapsto> [52, 187]))"
proof -
  have h: "globals demo_state 4 = Some (Some (Str ''42''))"
    and b: "mem demo_state 9 = Some [170, 187]"
    by (simp_all add: demo_state_def)
  have n: "(0::int) \<le> 1" "(1::int) < 2 ^ 31" "nat 1 \<le> length [52, 50 :: byte] + 1"
    "nat 1 \<le> length [170, 187 :: byte]"
    by simp_all
  from copyUtf8String_writes_count_bytes
         [OF h demo_encode [of "eng demo_state"] b n, of 0]
  obtain st' blk' where
    1: "copyUtf8String (demo_engine None False) 0 (Addr 4) (Addr 9) 1 demo_state = Inr ((), st')"
      "mem st' = (mem demo_state)(9 \<mapsto> blk')" "length blk' = length [170, 187 :: byte]"
      "take (nat 1) blk' = take (nat 1) ([52, 50 :: byte] @ [0])"
      "drop (nat 1) blk' = drop (nat 1) [170, 187 :: byte]"
    by blast
  from 1(3,4,5) have "blk' = [52, 187]"
    by (cases blk') simp_all
  with 1(1,2) h b demo_encode [of "eng demo_state"] show ?thesis by simp
qed

theorem copyUtf8String_negative_count_counterexample:
  "copyUtf8String (demo_engine None False) 0 (Addr 4) (Addr 9) (- 1) demo_state = Inl OutOfBounds"
  by (simp add: copyUtf8String_def GlobalValue_def step_defs memcpy_def demo_defs)

section \<open>The guard discipline of the bridge functions\<close>

text \<open>Each function that takes the isolate brackets its calls into the engine.\<close>

lemmas discipline_defs = disciplined_def new_events_def guarded_def holds_def Let_def

lemma createTemplate_disciplined:
  "createTemplate E i st = Inr (p, st') \<Longrightarrow> disciplined i st st'"
  by (auto simp: createTemplate_def step_defs discipline_defs split: prod.splits)

lemma createContext_disciplined:
  "createContext E i tp st = Inr (p, st') \<Longrightarrow> disciplined i st st'"
  by (auto simp: createContext_def step_defs discipline_defs
           split: prod.splits ptr.splits option.splits)

lemma evaluate_disciplined:
  "evaluate E i cp src exc st = Inr (p, st') \<Longrightarrow> disciplined i st st'"
  by (auto simp: evaluate_def step_defs discipline_defs
           split: prod.splits ptr.splits option.splits sum.splits)

lemma valueToInt_disciplined:
  "valueToInt E i vp st = Inr (n, st') \<Longrightarrow> disciplined i st st'"
  by (auto simp: valueToInt_def GlobalValue_def step_defs discipline_defs
           split: prod.splits ptr.splits option.splits sum.splits)

lemma getUtf8StringLength_disciplined:
  "getUtf8StringLength E i vp st = Inr (k, st') \<Longrightarrow> disciplined i st st'"
  by (auto simp: getUtf8StringLength_def GlobalValue_def step_defs discipline_defs
           split: prod.splits ptr.splits option.splits sum.splits)

lemma copyUtf8String_disciplined:
  "copyUtf8String E i vp buf count st = Inr (u, st') \<Longrightarrow> disciplined i st st'"
  by (auto simp: copyUtf8String_def GlobalValue_def step_defs discipline_defs
           split: prod.splits ptr.splits option.splits sum.splits)

lemma type_check_disciplined:
  "type_check IsX name i vp st = Inr (b, st') \<Longrightarrow> disciplined i st st'"
  by (auto simp: type_check_def GlobalValue_def step_defs discipline_defs
           split: prod.splits ptr.splits option.splits sum.splits)

lemma createFunction_disciplined:
  "createFunction E i cp tp name k st = Inr (u, st') \<Longrightarrow> disciplined i st st'"
  by (auto simp: createFunction_def Global_Reset_def step_defs discipline_defs
           split: prod.splits ptr.splits option.splits sum.splits)

lemma getProperty_disciplined:
  "getProperty E i vp key exc st = Inr (p, st') \<Longrightarrow> disciplined i st st'"
  by (auto simp: getProperty_def step_defs discipline_defs
           split: prod.splits ptr.splits option.splits sum.splits)

lemma delete_Global_unguarded:
  "delete_Global p st = Inr (u, st') \<Longrightarrow> unguarded st st'"
  by (auto simp: delete_Global_def logs_def unguarded_def new_events_def
           split: ptr.splits option.splits if_splits)

lemmas bridge_defs = createTemplate_def createContext_def evaluate_def valueToInt_def
  getUtf8StringLength_def copyUtf8String_def type_check_def isNull_def isUndefined_def
  isBoolean_def isNumber_def isString_def isObject_def createFunction_def getProperty_def
  disposeTemplate_def disposeContext_def disposeValue_def delete_Global_def Global_Reset_def
  GlobalValue_def run_source_def lookup_named_def rebind_def memcpy_def

lemma ex_returned:
  "\<exists>r s. f = Inr (r, s) \<Longrightarrow> \<forall>r s. f = Inr (r, s) \<longrightarrow> P s \<Longrightarrow> \<exists>r s. f = Inr (r, s) \<and> P s"
  by blast

text \<open>
  C1, as amended. Each of \<open>createTemplate\<close>, \<open>createContext\<close>, \<open>evaluate\<close>, \<open>valueToInt\<close>,
  \<open>getUtf8StringLength\<close>, \<open>copyUtf8String\<close>, the six type checks, \<open>createFunction\<close> and
  \<open>getProperty\<close> acquires the lock of the isolate it is given, then the isolate scope, then
  the handle scope (in \<open>evaluate\<close> and \<open>getProperty\<close> a try-catch is set up between the lock
  and the isolate scope, and \<open>evaluate\<close> enters the context last); every call into the engine
  is made while the three are held; and on every path that returns, the guards are released
  in the reverse order of their acquisition, so that none is held at the end. The three
  dispose operations take no isolate: they acquire nothing and reset the global handle
  directly.
\<close>

theorem guards_bracket_engine_calls:
  "(\<forall>p st'. createTemplate E i st = Inr (p, st') \<longrightarrow> disciplined i st st') \<and>
   (\<forall>p st'. createContext E i tp st = Inr (p, st') \<longrightarrow> disciplined i st st') \<and>
   (\<forall>p st'. evaluate E i cp src exc st = Inr (p, st') \<longrightarrow> disciplined i st st') \<and>
   (\<forall>n st'. valueToInt E i vp st = Inr (n, st') \<longrightarrow> disciplined i st st') \<and>
   (\<forall>n st'. getUtf8StringLength E i sp st = Inr (n, st') \<longrightarrow> disciplined i st st') \<and>
   (\<forall>u st'. copyUtf8String E i sp buf count st = Inr (u, st') \<longrightarrow> disciplined i st st') \<and>
   (\<forall>b st'. isNull E i vp st = Inr (b, st') \<longrightarrow> disciplined i st st') \<and>
   (\<forall>b st'. isUndefined E i vp st = Inr (b, st') \<longrightarrow> disciplined i st st') \<and>
   (\<forall>b st'. isBoolean E i vp st = Inr (b, st') \<longrightarrow> disciplined i st st') \<and>
   (\<forall>b st'. isNumber E i vp st = Inr (b, st') \<longrightarrow> disciplined i st st') \<and>
   (\<forall>b st'. isString E i vp st = Inr (b, st') \<longrightarrow> disciplined i st st') \<and>
   (\<forall>b st'. isObject E i vp st = Inr (b, st') \<longrightarrow> disciplined i st st') \<and>
   (\<forall>u st'. createFunction E i cp tp name k st = Inr (u, st') \<longrightarrow> disciplined i st st') \<and>
   (\<forall>p st'. getProperty E i ob key exc st = Inr (p, st') \<longrightarrow> disciplined i st st') \<and>
   (\<forall>u st'. disposeTemplate dp st = Inr (u, st') \<longrightarrow> unguarded st st') \<and>
   (\<forall>u st'. disposeContext dp st = Inr (u, st') \<longrightarrow> unguarded st st') \<and>
   (\<forall>u st'. disposeValue dp st = Inr (u, st') \<longrightarrow> unguarded st st')"
  unfolding isNull_def isUndefined_def isBoolean_def isNumber_def isString_def isObject_def
    disposeTemplate_def disposeContext_def disposeValue_def
  by (intro conjI allI impI)
     (erule createTemplate_disciplined createContext_disciplined evaluate_disciplined
        valueToInt_disciplined getUtf8StringLength_disciplined copyUtf8String_disciplined
        type_check_disciplined createFunction_disciplined getProperty_disciplined
        delete_Global_unguarded)+

theorem guards_bracket_engine_calls_witness:
  "(\<exists>p st'. createTemplate (demo_engine None True) 0 demo_state = Inr (p, st') \<and>
      disciplined 0 demo_state st') \<and>
   (\<exists>p st'. createContext (demo_engine None True) 0 (Addr 1) demo_state = Inr (p, st') \<and>
      disciplined 0 demo_state st') \<and>
   (\<exists>p st'. evaluate (demo_engine None True) 0 (Addr 2) ''40 + 2'' (Addr 5) demo_state
        = Inr (p, st') \<and> disciplined 0 demo_state st') \<and>
   (\<exists>n st'. valueToInt (demo_engine None True) 0 (Addr 6) demo_state = Inr (n, st') \<and>
      disciplined 0 demo_state st') \<and>
   (\<exists>n st'. getUtf8StringLength (demo_engine None True) 0 (Addr 4) demo_state = Inr (n, st') \<and>
      disciplined 0 demo_state st') \<and>
   (\<exists>u st'. copyUtf8String (demo_engine None True) 0 (Addr 4) (Addr 9) 2 demo_state
        = Inr (u, st') \<and> disciplined 0 demo_state st') \<and>
   (\<exists>b st'. isNull (demo_engine None True) 0 (Addr 6) demo_state = Inr (b, st') \<and>
      disciplined 0 demo_state st') \<and>
   (\<exists>b st'. isUndefined (demo_engine None True) 0 (Addr 6) demo_state = Inr (b, st') \<and>
      disciplined 0 demo_state st') \<and>
   (\<exists>b st'. isBoolean (demo_engine None True) 0 (Addr 6) demo_state = Inr (b, st') \<and>
      disciplined 0 demo_state st') \<and>
   (\<exists>b st'. isNumber (demo_engine None True) 0 (Addr 6) demo_state = Inr (b, st') \<and>
      disciplined 0 demo_state st') \<and>
   (\<exists>b st'. isString (demo_engine None True) 0 (Addr 6) demo_state = Inr (b, st') \<and>
      disciplined 0 demo_state st') \<and>
   (\<exists>b st'. isObject (demo_engine None True) 0 (Addr 6) demo_state = Inr (b, st') \<and>
      disciplined 0 demo_state st') \<and>
   (\<exists>u st'. createFunction (demo_engine None True) 0 (Addr 2) (Addr 1) ''f'' 7 demo_state
        = Inr (u, st') \<and> disciplined 0 demo_state st') \<and>
   (\<exists>p st'. getProperty (demo_engine None True) 0 (Addr 3) ''boom'' (Addr 5) demo_state
        = Inr (p, st') \<and> disciplined 0 demo_state st') \<and>
   (\<exists>u st'. disposeTemplate (Addr 4) demo_state = Inr (u, st') \<and> unguarded demo_state st') \<and>
   (\<exists>u st'. disposeContext (Addr 4) demo_state = Inr (u, st') \<and> unguarded demo_state st') \<and>
   (\<exists>u st'. disposeValue (Addr 4) demo_state = Inr (u, st') \<and> unguarded demo_state st')"
proof -
  note T = guards_bracket_engine_calls
             [where E = "demo_engine None True" and i = 0 and st = demo_state
                and tp = "Addr 1" and cp = "Addr 2" and src = "''40 + 2''" and exc = "Addr 5"
                and vp = "Addr 6" and sp = "Addr 4" and buf = "Addr 9" and count = 2
                and name = "''f''" and k = 7 and ob = "Addr 3" and key = "''boom''"
                and dp = "Addr 4"]
  have r1: "\<exists>p st'. createTemplate (demo_engine None True) 0 demo_state = Inr (p, st')"
    and r2: "\<exists>p st'. createContext (demo_engine None True) 0 (Addr 1) demo_state = Inr (p, st')"
    and r3: "\<exists>p st'. evaluate (demo_engine None True) 0 (Addr 2) ''40 + 2'' (Addr 5) demo_state
               = Inr (p, st')"
    and r4: "\<exists>n st'. valueToInt (demo_engine None True) 0 (Addr 6) demo_state = Inr (n, st')"
    and r5: "\<exists>n st'. getUtf8StringLength (demo_engine None True) 0 (Addr 4) demo_state
               = Inr (n, st')"
    and r6: "\<exists>u st'. copyUtf8String (demo_engine None True) 0 (Addr 4) (Addr 9) 2 demo_state
               = Inr (u, st')"
    by (simp_all add: bridge_defs step_defs demo_defs)
  have r7: "\<exists>b st'. isNull (demo_engine None True) 0 (Addr 6) demo_state = Inr (b, st')"
    and r8: "\<exists>b st'. isUndefined (demo_engine None True) 0 (Addr 6) demo_state = Inr (b, st')"
    and r9: "\<exists>b st'. isBoolean (demo_engine None True) 0 (Addr 6) demo_state = Inr (b, st')"
    and r10: "\<exists>b st'. isNumber (demo_engine None True) 0 (Addr 6) demo_state = Inr (b, st')"
    and r11: "\<exists>b st'. isString (demo_engine None True) 0 (Addr 6) demo_state = Inr (b, st')"
    and r12: "\<exists>b st'. isObject (demo_engine None True) 0 (Addr 6) demo_state = Inr (b, st')"
    by (auto simp add: bridge_defs step_defs demo_defs)
  have r13: "\<exists>u st'. createFunction (demo_engine None True) 0 (Addr 2) (Addr 1) ''f'' 7 demo_state
               = Inr (u, st')"
    and r14: "\<exists>p st'. getProperty (demo_engine None True) 0 (Addr 3) ''boom'' (Addr 5) demo_state
               = Inr (p, st')"
    and r15: "\<exists>u st'. disposeTemplate (Addr 4) demo_state = Inr (u, st')"
    and r16: "\<exists>u st'. disposeContext (Addr 4) demo_state = Inr (u, st')"
    and r17: "\<exists>u st'. disposeValue (Addr 4) demo_state = Inr (u, st')"
    by (simp_all add: bridge_defs step_defs demo_defs)
  note T1 = T
  note T2 = T1 [THEN conjunct2]
  note T3 = T2 [THEN conjunct2]
  note T4 = T3 [THEN conjunct2]
  note T5 = T4 [THEN conjunct2]
  note T6 = T5 [THEN conjunct2]
  note T7 = T6 [THEN conjunct2]
  note T8 = T7 [THEN conjunct2]
  note T9 = T8 [THEN conjunct2]
  note T10 = T9 [THEN conjunct2]
  note T11 = T10 [THEN conjunct2]
  note T12 = T11 [THEN conjunct2]
  note T13 = T12 [THEN conjunct2]
  note T14 = T13 [THEN conjunct2]
  note T15 = T14 [THEN conjunct2]
  note T16 = T15 [THEN conjunct2]
  note T17 = T16 [THEN conjunct2]
  show ?thesis
    by (intro conjI
        ex_returned [OF r1 T1 [THEN conjunct1]] ex_returned [OF r2 T2 [THEN conjunct1]]
        ex_returned [OF r3 T3 [THEN conjunct1]] ex_returned [OF r4 T4 [THEN conjunct1]]
        ex_returned [OF r5 T5 [THEN conjunct1]] ex_returned [OF r6 T6 [THEN conjunct1]]
        ex_returned [OF r7 T7 [THEN conjunct1]] ex_returned [OF r8 T8 [THEN conjunct1]]
        ex_returned [OF r9 T9 [THEN conjunct1]] ex_returned [OF r10 T10 [THEN
        conjunct1]] ex_returned [OF r11 T11 [THEN conjunct1]] ex_returned [OF r12 T12
        [THEN conjunct1]] ex_returned [OF r13 T13 [THEN conjunct1]] ex_returned [OF r14
        T14 [THEN conjunct1]] ex_returned [OF r15 T15 [THEN conjunct1]] ex_returned [OF
        r16 T16 [THEN conjunct1]] ex_returned [OF r17 T17])
qed

theorem dispose_without_guard_counterexample:
  "disposeValue (Addr 4) demo_state
     = Inr ((), demo_state\<lparr>globals := (globals demo_state)(4 := None),
                           trace := [Native ''Global::Reset'']\<rparr>) \<and>
   \<not> disciplined 0 demo_state
        (demo_state\<lparr>globals := (globals demo_state)(4 := None),
                    trace := [Native ''Global::Reset'']\<rparr>)"
  by (simp add: disposeValue_def delete_Global_def logs_def demo_state_def
        disciplined_def new_events_def guarded_def holds_def)

section \<open>Functions called from script code\<close>

lemma promote_effect:
  "promote as st = (ps, st') \<Longrightarrow>
     length ps = length as \<and>
     (\<forall>k < length as. ps ! k = Addr (fresh st + k)) \<and>
     fresh st' = fresh st + length as \<and>
     (\<forall>k < length as. globals st' (fresh st + k) = Some (Some (as ! k))) \<and>
     (\<forall>a. a < fresh st \<longrightarrow> globals st' a = globals st a) \<and>
     eng st' = eng st \<and> slots st' = slots st \<and> mem st' = mem st \<and>
     trace st' = trace st @ replicate (length as) (Native ''Global::New'')"
proof (induction as arbitrary: st ps st')
  case Nil
  then show ?case by simp
next
  case (Cons a as)
  obtain p st1 where n: "new_Global (Some a) st = (p, st1)" by (cases "new_Global (Some a) st")
  obtain qs st2 where r: "promote as st1 = (qs, st2)" by (cases "promote as st1")
  from n have p: "p = Addr (fresh st)" and f1: "fresh st1 = Suc (fresh st)"
    and g1: "globals st1 = (globals st)(fresh st \<mapsto> Some a)"
    and o1: "eng st1 = eng st" "slots st1 = slots st" "mem st1 = mem st"
      "trace st1 = trace st @ [Native ''Global::New'']"
    by (auto simp: new_Global_def logs_def)
  from Cons.prems n r have res: "ps = p # qs" "st' = st2" by simp_all
  note ih = Cons.IH [OF r]
  have "\<forall>k < length (a # as). ps ! k = Addr (fresh st + k)"
  proof (intro allI impI)
    fix k assume k: "k < length (a # as)"
    show "ps ! k = Addr (fresh st + k)"
      using k ih res p f1 by (cases k) simp_all
  qed
  moreover have "\<forall>k < length (a # as). globals st' (fresh st + k) = Some (Some ((a # as) ! k))"
  proof (intro allI impI)
    fix k assume k: "k < length (a # as)"
    show "globals st' (fresh st + k) = Some (Some ((a # as) ! k))"
    proof (cases k)
      case 0
      with ih res f1 g1 show ?thesis by simp
    next
      case (Suc j)
      with k ih res f1 show ?thesis by simp
    qed
  qed
  moreover have "\<forall>x. x < fresh st \<longrightarrow> globals st' x = globals st x"
    using ih res f1 g1 by simp
  ultimately show ?case
    using ih res f1 o1 by (simp add: replicate_app_Cons_same)
qed

lemma callback_effect:
  assumes "Value_Int32Value E (eng st) (args_Data args) = (K, e1)"
  shows "\<exists>vals st2.
      callback E swiftCallback args st
        = unwind [HandleScope (args_GetIsolate args)]
            (swiftCallback (args_GetIsolate args) K vals (int (length (args_at args)))
               (args_GetReturnValue args) st2) \<and>
      length vals = length (args_at args) \<and>
      (\<forall>k < length (args_at args).
         vals ! k = Addr (fresh st + k) \<and>
         cell_of st2 (vals ! k) = Some (Some (args_at args ! k))) \<and>
      (\<forall>a. a < fresh st \<longrightarrow> globals st2 a = globals st a) \<and>
      eng st2 = e1 \<and> slots st2 = slots st \<and> mem st2 = mem st \<and>
      globals (callback E swiftCallback args st)
        = globals (swiftCallback (args_GetIsolate args) K vals (int (length (args_at args)))
                     (args_GetReturnValue args) st2)"
proof -
  let ?st1 = "enter [HandleScope (args_GetIsolate args)]
                (logs [Native ''Value::Int32Value''] (st\<lparr>eng := e1\<rparr>))"
  obtain vals st2 where pr: "promote (args_at args) ?st1 = (vals, st2)"
    by (cases "promote (args_at args) ?st1")
  have s1: "fresh ?st1 = fresh st" "globals ?st1 = globals st" "eng ?st1 = e1"
    "slots ?st1 = slots st" "mem ?st1 = mem st"
    by (simp_all add: enter_def logs_def)
  note pe = promote_effect [OF pr, unfolded s1]
  from assms pr have
    "callback E swiftCallback args st
        = unwind [HandleScope (args_GetIsolate args)]
            (swiftCallback (args_GetIsolate args) K vals (int (length (args_at args)))
               (args_GetReturnValue args) st2)"
    by (simp add: callback_def Let_def)
  moreover from this have
    "globals (callback E swiftCallback args st)
        = globals (swiftCallback (args_GetIsolate args) K vals (int (length (args_at args)))
                     (args_GetReturnValue args) st2)"
    by (simp add: unwind_def logs_def)
  moreover from pe have "\<forall>k < length (args_at args).
         vals ! k = Addr (fresh st + k) \<and>
         cell_of st2 (vals ! k) = Some (Some (args_at args ! k))"
    by (simp add: cell_of_def)
  ultimately show ?thesis using pe by blast
qed

lemma createFunction_effect:
  assumes "globals st t = Some (Some tm)" and "globals st c = Some (Some cx)"
    and "rebind E (eng st) tm cx name k = (newContext, e7)"
  shows "\<exists>st'. createFunction E i (Addr c) (Addr t) name k st = Inr ((), st') \<and>
           globals st' = (globals st)(c \<mapsto> newContext) \<and> fresh st' = fresh st \<and>
           eng st' = e7 \<and> slots st' = slots st \<and> mem st' = mem st"
  using assms
  by (simp add: createFunction_def Global_Reset_def step_defs Let_def)

text \<open>
  C5. \<open>createFunction\<close> on isolate \<open>i\<close> with the identifier \<open>K\<close> makes the engine integer
  \<open>data\<close> from \<open>K\<close>, makes a function template for \<open>callback\<close> with that data, and sets it in
  the template under the name. A call of that function from script code reaches \<open>callback\<close>
  with the data and the isolate of the registration (this is what the engine promises for
  \<^verbatim>\<open>FunctionTemplate::New(isolate, callback, data)\<close>), and the engine reads the integer it
  made from \<open>K\<close> back as \<open>K\<close>. Then \<open>callback\<close> is one application of the dispatch function:
  to the isolate \<open>i\<close>, to \<open>K\<close>, to \<open>n\<close> fresh, distinct handles whose cells hold the arguments
  in their order (none when \<open>n\<close> is zero), to \<open>n\<close> and to the return value of this call. The
  state the dispatch function leaves is returned as it is, but for the handle scope that is
  closed: no handle is disposed and nothing of the outcome is changed.
\<close>

theorem registered_function_dispatches_once:
  assumes t: "globals st t = Some (Some tm)" and c: "globals st c = Some (Some cx)"
    and 1: "Integer_New E (eng st) K = (data, e1)"
    and 2: "String_NewFromUtf8 E e1 name = (nm, e2)"
    and 3: "FunctionTemplate_New E e2 data = (fn, e3)"
    and 4: "Context_Global E (ObjectTemplate_Set E e3 tm nm fn) cx = (globalObject, e5)"
    and 5: "Context_New E (Context_DetachGlobal E e5 cx) (Some tm) globalObject = (newContext, e7)"
    and call: "args_Data args = data" "args_GetIsolate args = i"
    and readback: "Value_Int32Value E (eng s) data = (K, e8)"
  shows "(\<exists>st'. createFunction E i (Addr c) (Addr t) name K st = Inr ((), st') \<and>
            eng st' = e7 \<and> globals st' = (globals st)(c \<mapsto> newContext)) \<and>
         (\<exists>vals s2.
            callback E swiftCallback args s
              = unwind [HandleScope i]
                  (swiftCallback i K vals (int (length (args_at args)))
                     (args_GetReturnValue args) s2) \<and>
            length vals = length (args_at args) \<and>
            (\<forall>k < length (args_at args).
               vals ! k = Addr (fresh s + k) \<and>
               cell_of s2 (vals ! k) = Some (Some (args_at args ! k))) \<and>
            (\<forall>a. a < fresh s \<longrightarrow> globals s2 a = globals s a) \<and>
            eng s2 = e8 \<and> slots s2 = slots s \<and> mem s2 = mem s \<and>
            globals (callback E swiftCallback args s)
              = globals (swiftCallback i K vals (int (length (args_at args)))
                           (args_GetReturnValue args) s2))"
proof
  from 1 2 3 4 5 have "rebind E (eng st) tm cx name K = (newContext, e7)"
    by (simp add: rebind_def)
  from createFunction_effect [OF t c this, of i]
  show "\<exists>st'. createFunction E i (Addr c) (Addr t) name K st = Inr ((), st') \<and>
            eng st' = e7 \<and> globals st' = (globals st)(c \<mapsto> newContext)"
    by blast
next
  from readback call(1) have "Value_Int32Value E (eng s) (args_Data args) = (K, e8)"
    by simp
  from callback_effect [OF this, of swiftCallback]
  show "\<exists>vals s2.
            callback E swiftCallback args s
              = unwind [HandleScope i]
                  (swiftCallback i K vals (int (length (args_at args)))
                     (args_GetReturnValue args) s2) \<and>
            length vals = length (args_at args) \<and>
            (\<forall>k < length (args_at args).
               vals ! k = Addr (fresh s + k) \<and>
               cell_of s2 (vals ! k) = Some (Some (args_at args ! k))) \<and>
            (\<forall>a. a < fresh s \<longrightarrow> globals s2 a = globals s a) \<and>
            eng s2 = e8 \<and> slots s2 = slots s \<and> mem s2 = mem s \<and>
            globals (callback E swiftCallback args s)
              = globals (swiftCallback i K vals (int (length (args_at args)))
                           (args_GetReturnValue args) s2)"
    unfolding call(2) .
qed

theorem registered_function_dispatches_once_witness:
  "globals demo_state 1 = Some (Some (Tmpl 0)) \<and>
   globals demo_state 2 = Some (Some (Ctx 1)) \<and>
   Integer_New (demo_engine None True) (eng demo_state) 7 = (Num 7, eng demo_state) \<and>
   result_of (createFunction (demo_engine None True) 0 (Addr 2) (Addr 1) ''f'' 7 demo_state)
     = Inr () \<and>
   demo_invoke
     (eng (state_of (createFunction (demo_engine None True) 0 (Addr 2) (Addr 1) ''f'' 7 demo_state)))
     0 ''f'' [Num 1, Str ''x''] 3 = Some demo_call \<and>
   slots (callback (demo_engine None True) demo_dispatch demo_call
            (state_of (createFunction (demo_engine None True) 0 (Addr 2) (Addr 1) ''f'' 7 demo_state)))
     100 = Addr 7 \<and>
   slots (callback (demo_engine None True) demo_dispatch demo_call
            (state_of (createFunction (demo_engine None True) 0 (Addr 2) (Addr 1) ''f'' 7 demo_state)))
     101 = Addr 2 \<and>
   slots (callback (demo_engine None True) demo_dispatch demo_call
            (state_of (createFunction (demo_engine None True) 0 (Addr 2) (Addr 1) ''f'' 7 demo_state)))
     0 = Addr 7 \<and>
   slots (callback (demo_engine None True) demo_dispatch demo_call
            (state_of (createFunction (demo_engine None True) 0 (Addr 2) (Addr 1) ''f'' 7 demo_state)))
     1 = Addr 8 \<and>
   globals (callback (demo_engine None True) demo_dispatch demo_call
              (state_of (createFunction (demo_engine None True) 0 (Addr 2) (Addr 1) ''f'' 7 demo_state)))
     7 = Some (Some (Num 1)) \<and>
   globals (callback (demo_engine None True) demo_dispatch demo_call
              (state_of (createFunction (demo_engine None True) 0 (Addr 2) (Addr 1) ''f'' 7 demo_state)))
     8 = Some (Some (Str ''x'')) \<and>
   new_events
     (state_of (createFunction (demo_engine None True) 0 (Addr 2) (Addr 1) ''f'' 7 demo_state))
     (callback (demo_engine None True) demo_dispatch demo_call
        (state_of (createFunction (demo_engine None True) 0 (Addr 2) (Addr 1) ''f'' 7 demo_state)))
     = [Native ''Value::Int32Value'', Enter (HandleScope 0), Native ''Global::New'',
        Native ''Global::New'', Native ''swiftCallback'', Leave (HandleScope 0)]"
proof -
  let ?D = "demo_engine None True"
  let ?e0 = "eng demo_state"
  let ?e4 = "ObjectTemplate_Set ?D ?e0 (Tmpl 0) (Some (Str ''f'')) (Some (Fn (Num 7)))"
  let ?e7 = "snd (Context_New ?D (Context_DetachGlobal ?D ?e4 (Ctx 1)) (Some (Tmpl 0))
                    (Some (Obj 2)))"
  let ?S = "state_of (createFunction ?D 0 (Addr 2) (Addr 1) ''f'' 7 demo_state)"
  have t: "globals demo_state 1 = Some (Some (Tmpl 0))"
    and c: "globals demo_state 2 = Some (Some (Ctx 1))"
    by (simp_all add: demo_state_def)
  have 1: "Integer_New ?D ?e0 7 = (Num 7, ?e0)"
    and 2: "String_NewFromUtf8 ?D ?e0 ''f'' = (Some (Str ''f''), ?e0)"
    and 3: "FunctionTemplate_New ?D ?e0 (Num 7) = (Some (Fn (Num 7)), ?e0)"
    and 4: "Context_Global ?D ?e4 (Ctx 1) = (Some (Obj 2), ?e4)"
    and 5: "Context_New ?D (Context_DetachGlobal ?D ?e4 (Ctx 1)) (Some (Tmpl 0)) (Some (Obj 2))
              = (Some (Ctx 3), ?e7)"
    by (simp_all add: demo_defs)
  have d: "args_Data demo_call = Num 7" and i: "args_GetIsolate demo_call = 0"
    by (simp_all add: demo_call_def)
  have rb: "Value_Int32Value ?D (eng ?S) (Num 7) = (7, eng ?S)"
    by (simp add: demo_engine_def)
  note T = registered_function_dispatches_once
             [OF t c 1 2 3 4 5 d i rb, of demo_dispatch]
  from T obtain st' where
    s: "createFunction ?D 0 (Addr 2) (Addr 1) ''f'' 7 demo_state = Inr ((), st')"
      "eng st' = ?e7" "globals st' = (globals demo_state)(2 \<mapsto> Some (Ctx 3))"
    by blast
  from s(1) have S: "?S = st'" and r: "result_of (createFunction ?D 0 (Addr 2) (Addr 1) ''f'' 7 demo_state) = Inr ()"
    by (simp_all add: state_of_def result_of_def)
  have inv: "demo_invoke (eng ?S) 0 ''f'' [Num 1, Str ''x''] 3 = Some demo_call"
    unfolding S s(2) by (simp add: demo_invoke_def demo_call_def demo_defs)
  have f: "fresh ?S = 7"
    by (simp add: state_of_def bridge_defs step_defs demo_defs Let_def)
  from T obtain vals s2 where
    cb: "callback ?D demo_dispatch demo_call ?S
          = unwind [HandleScope 0]
              (demo_dispatch 0 7 vals (int (length (args_at demo_call)))
                 (args_GetReturnValue demo_call) s2)"
    and l: "length vals = length (args_at demo_call)"
    and v: "\<forall>k < length (args_at demo_call).
              vals ! k = Addr (fresh ?S + k) \<and>
              cell_of s2 (vals ! k) = Some (Some (args_at demo_call ! k))"
    by blast
  from v have v': "\<forall>k < length (args_at demo_call).
              vals ! k = Addr (7 + k) \<and>
              cell_of s2 (vals ! k) = Some (Some (args_at demo_call ! k))"
    by (simp only: f)
  from v' [rule_format, of 0] have v0: "vals ! 0 = Addr 7"
    "cell_of s2 (vals ! 0) = Some (Some (Num 1))"
    by (auto simp: demo_call_def)
  from v' [rule_format, of 1] have v1: "vals ! 1 = Addr 8"
    "cell_of s2 (vals ! 1) = Some (Some (Str ''x''))"
    by (auto simp: demo_call_def)
  from l v0(1) v1(1) have vals: "vals = [Addr 7, Addr 8]"
    by (auto simp: demo_call_def length_Suc_conv)
  from v0 v1 have cells: "globals s2 7 = Some (Some (Num 1))"
    "globals s2 8 = Some (Some (Str ''x''))"
    by (simp_all add: cell_of_def)
  from cb vals cells have
    "slots (callback ?D demo_dispatch demo_call ?S) 100 = Addr 7"
    "slots (callback ?D demo_dispatch demo_call ?S) 101 = Addr 2"
    "slots (callback ?D demo_dispatch demo_call ?S) 0 = Addr 7"
    "slots (callback ?D demo_dispatch demo_call ?S) 1 = Addr 8"
    "globals (callback ?D demo_dispatch demo_call ?S) 7 = Some (Some (Num 1))"
    "globals (callback ?D demo_dispatch demo_call ?S) 8 = Some (Some (Str ''x''))"
    by (simp_all add: unwind_def logs_def demo_dispatch_def demo_call_def)
  moreover have "new_events ?S (callback ?D demo_dispatch demo_call ?S)
     = [Native ''Value::Int32Value'', Enter (HandleScope 0), Native ''Global::New'',
        Native ''Global::New'', Native ''swiftCallback'', Leave (HandleScope 0)]"
    by (simp add: new_events_def callback_def state_of_def bridge_defs step_defs demo_defs
          demo_call_def demo_dispatch_def Let_def)
  ultimately show ?thesis using t c 1 r inv by simp
qed

text \<open>
  C6, as amended. \<open>createFunction\<close> asks the engine to set the slot \<open>name\<close> of the template
  to a function template whose data is the integer made from the identifier, takes the
  global object of the old context, detaches it, and asks the engine for a new context from
  the same template with that global object to reuse. The caller's context handle keeps
  its address and now holds the new context; no handle is allocated and no other cell, slot
  or buffer changes. Through that handle \<open>evaluate\<close> runs scripts in the new context: a
  property set earlier, or a function registered earlier, is readable or callable exactly
  when the engine's new context provides it. The bridge copies nothing itself, so with an
  engine whose \<^verbatim>\<open>Context::New\<close> keeps only the identity of a reused global object and
  resets its state, a property set before the registration is gone (the counterexample).
\<close>

theorem createFunction_rebinds_in_place:
  assumes t: "globals st t = Some (Some tm)" and c: "globals st c = Some (Some cx)"
    and 1: "Integer_New E (eng st) k = (data, e1)"
    and 2: "String_NewFromUtf8 E e1 name = (nm, e2)"
    and 3: "FunctionTemplate_New E e2 data = (fn, e3)"
    and 4: "Context_Global E (ObjectTemplate_Set E e3 tm nm fn) cx = (globalObject, e5)"
    and 5: "Context_New E (Context_DetachGlobal E e5 cx) (Some tm) globalObject = (newContext, e7)"
  shows "\<exists>st'. createFunction E i (Addr c) (Addr t) name k st = Inr ((), st') \<and>
           globals st' = (globals st)(c \<mapsto> newContext) \<and> fresh st' = fresh st \<and>
           eng st' = e7 \<and> slots st' = slots st \<and> mem st' = mem st \<and>
           (\<forall>ncx src v e8 exc.
              newContext = Some ncx \<and> run_source E e7 ncx src = Inr (Some v, e8) \<longrightarrow>
              (\<exists>st''. evaluate E i (Addr c) src exc st' = Inr (Addr (fresh st), st'') \<and>
                 cell_of st'' (Addr (fresh st)) = Some (Some v)))"
proof -
  from 1 2 3 4 5 have rb: "rebind E (eng st) tm cx name k = (newContext, e7)"
    by (simp add: rebind_def)
  from createFunction_effect [OF t c rb, of i] obtain st' where
    s: "createFunction E i (Addr c) (Addr t) name k st = Inr ((), st')"
      "globals st' = (globals st)(c \<mapsto> newContext)" "fresh st' = fresh st"
      "eng st' = e7" "slots st' = slots st" "mem st' = mem st"
    by blast
  have "\<forall>ncx src v e8 exc.
          newContext = Some ncx \<and> run_source E e7 ncx src = Inr (Some v, e8) \<longrightarrow>
          (\<exists>st''. evaluate E i (Addr c) src exc st' = Inr (Addr (fresh st), st'') \<and>
             cell_of st'' (Addr (fresh st)) = Some (Some v))"
  proof (intro allI impI)
    fix ncx src v e8 exc
    assume a: "newContext = Some ncx \<and> run_source E e7 ncx src = Inr (Some v, e8)"
    with s have g: "globals st' c = Some (Some ncx)"
      and r: "run_source E (eng st') ncx src = Inr (Some v, e8)"
      by simp_all
    from evaluate_success [OF g r, of i exc] s(3)
    show "\<exists>st''. evaluate E i (Addr c) src exc st' = Inr (Addr (fresh st), st'') \<and>
             cell_of st'' (Addr (fresh st)) = Some (Some v)"
      by (auto simp: cell_of_def)
  qed
  with s show ?thesis by blast
qed

theorem createFunction_rebinds_in_place_witness:
  "globals demo_state_x 1 = Some (Some (Tmpl 0)) \<and>
   globals demo_state_x 2 = Some (Some (Ctx 1)) \<and>
   fst (rebind (demo_engine None True) (eng demo_state_x) (Tmpl 0) (Ctx 1) ''f'' 7)
     = Some (Ctx 3) \<and>
   (\<exists>st'. createFunction (demo_engine None True) 0 (Addr 2) (Addr 1) ''f'' 7 demo_state_x
             = Inr ((), st') \<and>
      cell_of st' (Addr 2) = Some (Some (Ctx 3)) \<and> fresh st' = 7 \<and>
      template_slots (eng st') 0 = [(''f'', Fn (Num 7))] \<and>
      (\<exists>st''. evaluate (demo_engine None True) 0 (Addr 2) ''x'' nullptr st' = Inr (Addr 7, st'') \<and>
         cell_of st'' (Addr 7) = Some (Some (Num 7))))"
proof -
  let ?D = "demo_engine None True"
  let ?e0 = "eng demo_state_x"
  let ?e4 = "ObjectTemplate_Set ?D ?e0 (Tmpl 0) (Some (Str ''f'')) (Some (Fn (Num 7)))"
  let ?e7 = "snd (Context_New ?D (Context_DetachGlobal ?D ?e4 (Ctx 1)) (Some (Tmpl 0))
                    (Some (Obj 2)))"
  have t: "globals demo_state_x 1 = Some (Some (Tmpl 0))"
    and c: "globals demo_state_x 2 = Some (Some (Ctx 1))"
    and f: "fresh demo_state_x = 7"
    by (simp_all add: demo_state_x_def demo_state_def)
  have 1: "Integer_New ?D ?e0 7 = (Num 7, ?e0)"
    and 2: "String_NewFromUtf8 ?D ?e0 ''f'' = (Some (Str ''f''), ?e0)"
    and 3: "FunctionTemplate_New ?D ?e0 (Num 7) = (Some (Fn (Num 7)), ?e0)"
    and 4: "Context_Global ?D ?e4 (Ctx 1) = (Some (Obj 2), ?e4)"
    and 5: "Context_New ?D (Context_DetachGlobal ?D ?e4 (Ctx 1)) (Some (Tmpl 0)) (Some (Obj 2))
              = (Some (Ctx 3), ?e7)"
    by (simp_all add: demo_defs demo_state_x_def)
  have rb: "fst (rebind ?D ?e0 (Tmpl 0) (Ctx 1) ''f'' 7) = Some (Ctx 3)"
    by (simp add: rebind_def demo_defs demo_state_x_def)
  have rs: "run_source ?D ?e7 (Ctx 3) ''x'' = Inr (Some (Num 7), ?e7)"
    by (simp add: run_source_def demo_defs demo_state_x_def)
  have ts: "template_slots ?e7 0 = [(''f'', Fn (Num 7))]"
    by (simp add: demo_defs demo_state_x_def)
  from createFunction_rebinds_in_place [OF t c 1 2 3 4 5, of 0] obtain st' where
    s: "createFunction ?D 0 (Addr 2) (Addr 1) ''f'' 7 demo_state_x = Inr ((), st')"
      "globals st' = (globals demo_state_x)(2 \<mapsto> Some (Ctx 3))"
      "fresh st' = fresh demo_state_x" "eng st' = ?e7"
    and r: "\<forall>ncx src v e8 exc.
              Some (Ctx 3) = Some ncx \<and> run_source ?D ?e7 ncx src = Inr (Some v, e8) \<longrightarrow>
              (\<exists>st''. evaluate ?D 0 (Addr 2) src exc st' = Inr (Addr (fresh demo_state_x), st'') \<and>
                 cell_of st'' (Addr (fresh demo_state_x)) = Some (Some v))"
    by blast
  from r [rule_format, of "Ctx 3" "''x''" "Num 7" ?e7 nullptr] rs f
  have ev: "\<exists>st''. evaluate ?D 0 (Addr 2) ''x'' nullptr st' = Inr (Addr 7, st'') \<and>
              cell_of st'' (Addr 7) = Some (Some (Num 7))"
    by simp
  from s f ts have
    "cell_of st' (Addr 2) = Some (Some (Ctx 3))" "fresh st' = 7"
    "template_slots (eng st') 0 = [(''f'', Fn (Num 7))]"
    by (simp_all add: cell_of_def)
  with s(1) ev t c rb show ?thesis by blast
qed

theorem rebind_resets_global_counterexample:
  "result_of (evaluate (demo_engine None False) 0 (Addr 2) ''x'' nullptr demo_state_x)
     = Inr (Addr 7) \<and>
   cell_of (state_of (evaluate (demo_engine None False) 0 (Addr 2) ''x'' nullptr demo_state_x))
     (Addr 7) = Some (Some (Num 7)) \<and>
   result_of (createFunction (demo_engine None False) 0 (Addr 2) (Addr 1) ''f'' 7 demo_state_x)
     = Inr () \<and>
   result_of (evaluate (demo_engine None False) 0 (Addr 2) ''x'' nullptr
                (state_of (createFunction (demo_engine None False) 0 (Addr 2) (Addr 1) ''f'' 7
                             demo_state_x)))
     = Inr nullptr"
  by (simp add: result_of_def state_of_def cell_of_def bridge_defs step_defs demo_defs
        demo_state_x_def Let_def)

end
